theory Spec2Isabelle
  imports Complex_Main
begin

section \<open>Python text primitives used by app.py\<close>

text \<open>
  Python strings are modelled as \<open>string\<close>, one \<open>char\<close> per code point, restricted to
  the first 256 code points (Latin-1). The functions below follow the behaviour of the
  built-in methods on that range.
\<close>

definition py_lower_char :: "char \<Rightarrow> char" where
  \<comment> \<open>\<open>str.lower\<close> on one code point: A-Z and the Latin-1 capitals (except the
      multiplication sign) move up by 32.\<close>
  "py_lower_char c =
     (let n = (of_char c :: nat)
      in if (65 \<le> n \<and> n \<le> 90) \<or> (192 \<le> n \<and> n \<le> 222 \<and> n \<noteq> 215)
         then char_of (n + 32) else c)"

definition py_lower :: "string \<Rightarrow> string" where
  "py_lower s = map py_lower_char s"

definition py_isspace :: "char \<Rightarrow> bool" where
  \<comment> \<open>the code points below 256 that \<open>str.strip()\<close> removes\<close>
  "py_isspace c =
     (let n = (of_char c :: nat)
      in (9 \<le> n \<and> n \<le> 13) \<or> (28 \<le> n \<and> n \<le> 32) \<or> n = 133 \<or> n = 160)"

definition py_strip :: "string \<Rightarrow> string" where
  "py_strip s = rev (dropWhile py_isspace (rev (dropWhile py_isspace s)))"

definition startswith :: "string \<Rightarrow> string \<Rightarrow> bool" where
  \<comment> \<open>\<open>s.startswith(p)\<close>\<close>
  "startswith s p = (take (length p) s = p)"

definition endswith :: "string \<Rightarrow> string \<Rightarrow> bool" where
  \<comment> \<open>\<open>s.endswith(p)\<close>\<close>
  "endswith s p = (length p \<le> length s \<and> drop (length s - length p) s = p)"

fun str_in :: "string \<Rightarrow> string \<Rightarrow> bool" where
  \<comment> \<open>\<open>needle in haystack\<close> on strings: a contiguous occurrence\<close>
  "str_in needle [] = (needle = [])"
| "str_in needle (c # cs) = (startswith (c # cs) needle \<or> str_in needle cs)"

fun py_join :: "string \<Rightarrow> string list \<Rightarrow> string" where
  \<comment> \<open>\<open>sep.join(xs)\<close>\<close>
  "py_join sep [] = []"
| "py_join sep [x] = x"
| "py_join sep (x # y # ys) = x @ sep @ py_join sep (y # ys)"

definition digit_char :: "nat \<Rightarrow> char" where
  \<comment> \<open>the decimal digit \<open>d\<close>, for \<open>d < 10\<close>\<close>
  "digit_char d = ''0123456789'' ! d"

fun str_of_nat :: "nat \<Rightarrow> string" where
  "str_of_nat n = (if n < 10 then [digit_char n]
                   else str_of_nat (n div 10) @ [digit_char (n mod 10)])"

declare str_of_nat.simps [simp del]

definition str_of_int :: "int \<Rightarrow> string" where
  \<comment> \<open>\<open>str(i)\<close> and \<open>'%d' % i\<close>\<close>
  "str_of_int i = (if i < 0 then CHR ''-'' # str_of_nat (nat (- i)) else str_of_nat (nat i))"

definition hex_digit :: "nat \<Rightarrow> char" where
  \<comment> \<open>the hexadecimal digit \<open>d\<close>, for \<open>d < 16\<close>\<close>
  "hex_digit d = ''0123456789abcdef'' ! d"

definition squote :: char where
  "squote = CHR 0x27"

definition dquote :: char where
  "dquote = CHR 0x22"

definition backslash :: char where
  "backslash = CHR 0x5C"

definition repr_char :: "char \<Rightarrow> char \<Rightarrow> string" where
  \<comment> \<open>one code point inside \<open>repr(s)\<close>, for the chosen quote character\<close>
  "repr_char q c =
     (let n = (of_char c :: nat)
      in if c = q \<or> c = backslash then [backslash, c]
         else if n = 9 then [backslash, CHR ''t'']
         else if n = 10 then [backslash, CHR ''n'']
         else if n = 13 then [backslash, CHR ''r'']
         else if n < 32 \<or> (127 \<le> n \<and> n \<le> 160) \<or> n = 173
           then [backslash, CHR ''x'', hex_digit (n div 16), hex_digit (n mod 16)]
         else [c])"

definition py_repr :: "string \<Rightarrow> string" where
  \<comment> \<open>\<open>repr(s)\<close> of a string: single quotes, unless the text has a single quote and no
      double quote\<close>
  "py_repr s =
     (let q = (if squote \<in> set s \<and> dquote \<notin> set s then dquote else squote)
      in q # concat (map (repr_char q) s) @ [q])"

definition py_repr_list :: "string list \<Rightarrow> string" where
  \<comment> \<open>\<open>str(xs)\<close> of a list of strings\<close>
  "py_repr_list xs = ''['' @ py_join '', '' (map py_repr xs) @ '']''"

definition os_path_join :: "string \<Rightarrow> string \<Rightarrow> string" where
  \<comment> \<open>\<open>os.path.join(a, b)\<close> (posixpath)\<close>
  "os_path_join a b =
     (if startswith b ''/'' then b
      else if a = [] \<or> endswith a ''/'' then a @ b
      else a @ ''/'' @ b)"

section \<open>Exceptions, configuration and environment\<close>

datatype exn =
    DownloadError string           \<comment> \<open>the application's own exception, with its message\<close>
  | PyError string string          \<comment> \<open>any other exception: class name and \<open>str(e)\<close>\<close>

fun str_exn :: "exn \<Rightarrow> string" where
  "str_exn (DownloadError m) = m"
| "str_exn (PyError cls m) = m"

record config =
  DOWNLOADS_DIR :: string
  MAX_FILE_SIZE :: int

definition ALLOWED_DOMAINS :: "string list" where
  "ALLOWED_DOMAINS = [''soundcloud.com'', ''on.soundcloud.com'', ''m.soundcloud.com'']"

record entry =
  is_file :: bool     \<comment> \<open>a regular file (\<open>os.path.isfile\<close>), as opposed to a directory\<close>
  size :: nat         \<comment> \<open>\<open>os.path.getsize\<close>\<close>
  mtime :: real       \<comment> \<open>\<open>os.path.getmtime\<close>, seconds\<close>

text \<open>
  The file system is the content of the downloads directory, in the order in which
  \<open>os.listdir\<close> reports it; the path \<open>os.path.join(DOWNLOADS_DIR, name)\<close> is represented
  by \<open>name\<close>. An entry is a regular file or a directory. Deleting a regular file
  succeeds; permissions and I/O errors are not modelled.
\<close>

type_synonym fs = "(string \<times> entry) list"

datatype proc_result =
    Exit int string string   \<comment> \<open>the process ended: return code, captured stdout, stderr\<close>
  | TimedOut                 \<comment> \<open>\<open>subprocess.TimeoutExpired\<close>\<close>
  | SpawnError string string \<comment> \<open>\<open>subprocess.run\<close> raised something else: class, message\<close>

text \<open>
  What the program reads from libraries and from the host is a parameter: the verdict of
  \<open>validators.url\<close>, the \<open>netloc\<close> that \<open>urllib.parse.urlparse\<close> returns (or the
  exception it raises), \<open>shutil.which\<close>, the random token, the clock, the platform's
  signal names and the behaviour of the external tool on the directory.
\<close>

record env =
  validators_url :: "string \<Rightarrow> bool"
  urlparse_netloc :: "string \<Rightarrow> exn + string"
  which :: "string \<Rightarrow> bool"
  uuid4_str :: string
  now_strftime :: string
  time_time :: real
  signal_name :: "nat \<Rightarrow> string option"
  subprocess_run :: "string list \<Rightarrow> fs \<Rightarrow> proc_result \<times> fs"

section \<open>URL validation\<close>

definition validate_soundcloud_url :: "env \<Rightarrow> string \<Rightarrow> exn + (bool \<times> string)" where
  "validate_soundcloud_url w url =
     (if \<not> validators_url w url then Inr (False, ''Invalid URL format'')
      else case urlparse_netloc w url of
             Inl e \<Rightarrow> Inl e
           | Inr netloc \<Rightarrow>
               if py_lower netloc \<notin> set ALLOWED_DOMAINS
               then Inr (False, ''URL must be from SoundCloud'')
               else Inr (True, ''Valid URL''))"

text \<open>
  The host and port that \<open>urllib.parse\<close> derives from a \<open>netloc\<close> (its \<open>hostname\<close> and
  \<open>port\<close> properties): the text after the last \<open>@\<close>, cut at the first colon, or at the
  brackets of an IPv6 literal; the host is lower-cased up to a zone separator \<open>%\<close>.
\<close>

definition rpartition_at :: "string \<Rightarrow> string" where
  \<comment> \<open>\<open>netloc.rpartition('@')[2]\<close>\<close>
  "rpartition_at s = rev (takeWhile (\<lambda>c. c \<noteq> CHR ''@'') (rev s))"

definition partition_before :: "char \<Rightarrow> string \<Rightarrow> string" where
  \<comment> \<open>\<open>s.partition(c)[0]\<close>\<close>
  "partition_before c s = takeWhile (\<lambda>x. x \<noteq> c) s"

definition partition_after :: "char \<Rightarrow> string \<Rightarrow> string" where
  \<comment> \<open>\<open>s.partition(c)[2]\<close>\<close>
  "partition_after c s = drop 1 (dropWhile (\<lambda>x. x \<noteq> c) s)"

definition hostinfo :: "string \<Rightarrow> string \<times> string" where
  "hostinfo netloc =
     (let hi = rpartition_at netloc
      in if CHR ''['' \<in> set hi
         then (let bracketed = partition_after CHR ''['' hi
               in (partition_before CHR '']'' bracketed,
                   partition_after CHR '':'' (partition_after CHR '']'' bracketed)))
         else (partition_before CHR '':'' hi, partition_after CHR '':'' hi))"

definition netloc_hostname :: "string \<Rightarrow> string" where
  "netloc_hostname netloc =
     (let h = fst (hostinfo netloc)
      in py_lower (partition_before CHR ''%'' h) @ dropWhile (\<lambda>x. x \<noteq> CHR ''%'') h)"

definition netloc_port :: "string \<Rightarrow> string option" where
  "netloc_port netloc =
     (let p = snd (hostinfo netloc) in if p = [] then None else Some p)"

text \<open>
  The \<open>netloc\<close> that \<open>urllib.parse.urlsplit\<close> computes for a URL without leading blanks,
  control characters or brackets: a leading scheme (a letter followed by letters, digits,
  \<open>+\<close>, \<open>-\<close>, \<open>.\<close> up to the first colon) is split off, and when the rest starts with two
  slashes the netloc runs up to the first of \<open>/\<close>, \<open>?\<close> and \<open>#\<close>. It instantiates
  \<open>urlparse_netloc\<close> in the concrete scenarios below.
\<close>

definition scheme_char :: "char \<Rightarrow> bool" where
  "scheme_char c =
     (let n = (of_char c :: nat)
      in (97 \<le> n \<and> n \<le> 122) \<or> (65 \<le> n \<and> n \<le> 90) \<or> (48 \<le> n \<and> n \<le> 57)
         \<or> c \<in> set ''+-.'')"

definition ascii_alpha :: "char \<Rightarrow> bool" where
  "ascii_alpha c =
     (let n = (of_char c :: nat) in (97 \<le> n \<and> n \<le> 122) \<or> (65 \<le> n \<and> n \<le> 90))"

definition after_scheme :: "string \<Rightarrow> string" where
  "after_scheme url =
     (let pre = takeWhile (\<lambda>c. c \<noteq> CHR '':'') url
      in if CHR '':'' \<in> set url \<and> pre \<noteq> [] \<and> ascii_alpha (hd url) \<and> list_all scheme_char pre
         then drop (length pre + 1) url else url)"

definition urlsplit_netloc :: "string \<Rightarrow> exn + string" where
  "urlsplit_netloc url =
     (let rest = after_scheme url
      in if startswith rest ''//''
         then Inr (takeWhile (\<lambda>c. c \<notin> set ''/?#'') (drop 2 rest))
         else Inr [])"

section \<open>The downloads directory\<close>

definition os_listdir :: "fs \<Rightarrow> string list" where
  "os_listdir files = map fst files"

definition os_path_exists :: "fs \<Rightarrow> string \<Rightarrow> bool" where
  "os_path_exists files name = (map_of files name \<noteq> None)"

definition os_path_isfile :: "fs \<Rightarrow> string \<Rightarrow> bool" where
  "os_path_isfile files name = (case map_of files name of Some e \<Rightarrow> is_file e | None \<Rightarrow> False)"

definition no_such_file :: "string \<Rightarrow> string \<Rightarrow> exn" where
  "no_such_file dir name =
     PyError ''FileNotFoundError''
       (''[Errno 2] No such file or directory: '' @ py_repr (os_path_join dir name))"

definition os_path_getsize :: "string \<Rightarrow> fs \<Rightarrow> string \<Rightarrow> exn + nat" where
  "os_path_getsize dir files name =
     (case map_of files name of Some e \<Rightarrow> Inr (size e) | None \<Rightarrow> Inl (no_such_file dir name))"

definition os_path_getmtime :: "string \<Rightarrow> fs \<Rightarrow> string \<Rightarrow> exn + real" where
  "os_path_getmtime dir files name =
     (case map_of files name of Some e \<Rightarrow> Inr (mtime e) | None \<Rightarrow> Inl (no_such_file dir name))"

definition os_remove :: "string \<Rightarrow> fs \<Rightarrow> string \<Rightarrow> exn + fs" where
  \<comment> \<open>\<open>os.remove\<close> deletes a regular file and raises on a directory or a missing path\<close>
  "os_remove dir files name =
     (case map_of files name of
        None \<Rightarrow> Inl (no_such_file dir name)
      | Some e \<Rightarrow>
          if is_file e then Inr (filter (\<lambda>p. fst p \<noteq> name) files)
          else Inl (PyError ''IsADirectoryError''
                      (''[Errno 21] Is a directory: '' @ py_repr (os_path_join dir name))))"

definition os_path_basename :: "string \<Rightarrow> string" where
  "os_path_basename p = rev (takeWhile (\<lambda>c. c \<noteq> CHR ''/'') (rev p))"

section \<open>Program state\<close>

text \<open>
  The state that the handlers change: the downloads directory, the commands handed to
  \<open>subprocess.run\<close> so far, the \<open>threading.Timer\<close> objects started so far (delay in
  seconds and the file each one is to delete) and the records that \<open>remove_file\<close> writes
  to the logger. The other logger calls change nothing that is observed and are left out,
  as is the session cookie's list of downloads.
\<close>

record state =
  files :: fs
  launched :: "string list list"
  timers :: "(real \<times> string) list"
  logs :: "(string \<times> string) list"

section \<open>The download pipeline\<close>

text \<open>A value that may or may not be a string: a field of a JSON body.\<close>

datatype pyval =
    Str string
  | NonStr string     \<comment> \<open>a number, boolean, null, list or object: the name of its Python type\<close>

definition check_dependencies :: "env \<Rightarrow> string list" where
  "check_dependencies w =
     (if \<not> which w ''yt-dlp'' then [''yt-dlp''] else []) @
     (if \<not> which w ''ffmpeg'' then [''ffmpeg''] else [])"

record download_result =
  success :: bool
  filename :: string
  file_size :: nat
  message :: string

text \<open>What the body of the \<open>try\<close> statement raises, as the \<open>except\<close> clauses tell it apart.\<close>

datatype raised =
    TimeoutExpired
  | CalledProcessError "string list" int string   \<comment> \<open>command, return code, stderr\<close>
  | Other exn

definition called_process_error_str :: "env \<Rightarrow> string list \<Rightarrow> int \<Rightarrow> string" where
  \<comment> \<open>\<open>str(e)\<close> of a \<open>CalledProcessError\<close>\<close>
  "called_process_error_str w cmd rc =
     (if rc < 0
      then (case signal_name w (nat (- rc)) of
              Some nm \<Rightarrow> ''Command '' @ [squote] @ py_repr_list cmd @ [squote] @ '' died with <Signals.''
                          @ nm @ '': '' @ str_of_int (- rc) @ ''>.''
            | None \<Rightarrow> ''Command '' @ [squote] @ py_repr_list cmd @ [squote]
                          @ '' died with unknown signal '' @ str_of_int (- rc) @ ''.'')
      else ''Command '' @ [squote] @ py_repr_list cmd @ [squote]
             @ '' returned non-zero exit status '' @ str_of_int rc @ ''.'')"

definition build_command :: "config \<Rightarrow> string \<Rightarrow> string \<Rightarrow> string \<Rightarrow> string \<Rightarrow> string list" where
  \<comment> \<open>the command before the quality option is appended\<close>
  "build_command cfg timestamp job_id soundcloud_url audio_format =
     [''yt-dlp'',
      ''--extract-audio'',
      ''--audio-format'', py_lower audio_format,
      ''--output'', DOWNLOADS_DIR cfg @ ''/'' @ timestamp @ ''_'' @ job_id @ ''_%(title)s.%(ext)s'',
      ''--no-playlist'',
      ''--max-filesize'', str_of_int (MAX_FILE_SIZE cfg),
      soundcloud_url]"

definition download_command :: "config \<Rightarrow> env \<Rightarrow> string \<Rightarrow> string \<Rightarrow> string \<Rightarrow> string list" where
  \<comment> \<open>the whole command of a call whose quality is the string \<open>q\<close>\<close>
  "download_command cfg w soundcloud_url audio_format q =
     build_command cfg (now_strftime w) (take 8 (uuid4_str w)) soundcloud_url audio_format
     @ (if py_lower audio_format = ''mp3'' then [''--audio-quality'', q] else [])"

definition find_downloaded :: "fs \<Rightarrow> string \<Rightarrow> string \<Rightarrow> string \<Rightarrow> string list" where
  \<comment> \<open>the list comprehension over \<open>os.listdir(DOWNLOADS_DIR)\<close>\<close>
  "find_downloaded fls timestamp job_id audio_format =
     filter (\<lambda>f. startswith f (timestamp @ ''_'' @ job_id) \<and> endswith f (''.'' @ py_lower audio_format))
            (os_listdir fls)"

definition check_downloaded :: "config \<Rightarrow> state \<Rightarrow> string \<Rightarrow> string \<Rightarrow> string \<Rightarrow> (raised + download_result) \<times> state" where
  \<comment> \<open>the body after \<open>subprocess.run\<close> has returned: find the file, check its size\<close>
  "check_downloaded cfg s timestamp job_id audio_format =
     (case find_downloaded (files s) timestamp job_id audio_format of
        [] \<Rightarrow> (Inl (Other (DownloadError ''File not found after download'')), s)
      | fname # _ \<Rightarrow>
          (case os_path_getsize (DOWNLOADS_DIR cfg) (files s) fname of
             Inl e \<Rightarrow> (Inl (Other e), s)
           | Inr fsize \<Rightarrow>
               if int fsize > MAX_FILE_SIZE cfg
               then (case os_remove (DOWNLOADS_DIR cfg) (files s) fname of
                       Inl e \<Rightarrow> (Inl (Other e), s)
                     | Inr files' \<Rightarrow>
                         (Inl (Other (DownloadError ''File too large'')), s\<lparr>files := files'\<rparr>))
               else (Inr \<lparr>success = True, filename = fname, file_size = fsize,
                          message = ''Download completed successfully''\<rparr>, s)))"

definition run_command :: "config \<Rightarrow> env \<Rightarrow> state \<Rightarrow> string list \<Rightarrow> string \<Rightarrow> string \<Rightarrow> string \<Rightarrow> (raised + download_result) \<times> state" where
  \<comment> \<open>\<open>subprocess.run(command, ..., timeout=300, check=True)\<close> and what follows it\<close>
  "run_command cfg w s command timestamp job_id audio_format =
     (case subprocess_run w command (files s) of
        (r, files') \<Rightarrow>
          (let s' = s\<lparr>files := files', launched := launched s @ [command]\<rparr>
           in case r of
                TimedOut \<Rightarrow> (Inl TimeoutExpired, s')
              | SpawnError cls m \<Rightarrow> (Inl (Other (PyError cls m)), s')
              | Exit rc out err \<Rightarrow>
                  if rc \<noteq> 0 then (Inl (CalledProcessError command rc err), s')
                  else check_downloaded cfg s' timestamp job_id audio_format))"

definition try_body :: "config \<Rightarrow> env \<Rightarrow> state \<Rightarrow> string \<Rightarrow> string \<Rightarrow> pyval \<Rightarrow> (raised + download_result) \<times> state" where
  "try_body cfg w s soundcloud_url audio_format quality =
     (case validate_soundcloud_url w soundcloud_url of
        Inl e \<Rightarrow> (Inl (Other e), s)
      | Inr (is_valid, msg) \<Rightarrow>
          if \<not> is_valid then (Inl (Other (DownloadError msg)), s)
          else
            (let missing_deps = check_dependencies w
             in if missing_deps \<noteq> []
                then (Inl (Other (DownloadError (''Missing dependencies: '' @ py_join '', '' missing_deps))), s)
                else
                  (let job_id = take 8 (uuid4_str w);
                       timestamp = now_strftime w;
                       command = build_command cfg timestamp job_id soundcloud_url audio_format
                   in if py_lower audio_format = ''mp3''
                      then (case quality of
                              Str q \<Rightarrow> run_command cfg w s (command @ [''--audio-quality'', q])
                                         timestamp job_id audio_format
                            | NonStr ty \<Rightarrow>
                                (Inl (Other (PyError ''TypeError''
                                   (''expected str, bytes or os.PathLike object, not '' @ ty))), s))
                      else run_command cfg w s command timestamp job_id audio_format)))"

definition decode_error :: exn where
  \<comment> \<open>\<open>e.stderr.decode()\<close> on the text that \<open>text=True\<close> makes of stderr\<close>
  "decode_error = PyError ''AttributeError'' ([squote] @ ''str'' @ [squote] @ '' object has no attribute ''
                                             @ [squote] @ ''decode'' @ [squote])"

definition download_soundcloud_to_mp3 :: "config \<Rightarrow> env \<Rightarrow> state \<Rightarrow> string \<Rightarrow> string \<Rightarrow> pyval \<Rightarrow> (exn + download_result) \<times> state" where
  "download_soundcloud_to_mp3 cfg w s soundcloud_url audio_format quality =
     (case try_body cfg w s soundcloud_url audio_format quality of
        (Inr res, s') \<Rightarrow> (Inr res, s')
      | (Inl TimeoutExpired, s') \<Rightarrow>
          (Inl (DownloadError ''Download timeout - file may be too large or connection slow''), s')
      | (Inl (CalledProcessError cmd rc err), s') \<Rightarrow>
          if err \<noteq> [] then (Inl decode_error, s')
          else
            (let error_msg = called_process_error_str w cmd rc
             in if str_in ''Private video'' error_msg \<or> str_in ''not available'' error_msg
                then (Inl (DownloadError ''Track is private or not available''), s')
                else if str_in ''Unsupported URL'' error_msg
                then (Inl (DownloadError ''Unsupported SoundCloud URL''), s')
                else (Inl (DownloadError (''Download failed: '' @ error_msg)), s'))
      | (Inl (Other e), s') \<Rightarrow>
          (Inl (DownloadError (''Unexpected error: '' @ str_exn e)), s'))"

section \<open>The request handler of \<open>/\<close>\<close>

datatype http_method = GET | POST

text \<open>
  The body of a request as the handler reads it: form fields, a JSON object, or a JSON
  body that is no object or does not parse (\<open>request.get_json()\<close> or the first
  \<open>data.get\<close> raises an exception of the given class and message).
\<close>

datatype request_data =
    FormData "string \<Rightarrow> string option"
  | JsonObject "string \<Rightarrow> pyval option"
  | JsonOther string string

record request =
  req_method :: http_method
  req_data :: request_data

datatype jvalue = JString string | JBool bool | JInt int | JList "string list"

datatype response =
    Json nat "(string \<times> jvalue) list"     \<comment> \<open>\<open>jsonify(...)\<close> with its status code\<close>
  | SendFile string string string         \<comment> \<open>\<open>send_file\<close>: path, download name, MIME type\<close>
  | Template string

fun status_code :: "response \<Rightarrow> nat" where
  "status_code (Json st _) = st"
| "status_code (SendFile _ _ _) = 200"
| "status_code (Template _) = 200"

definition data_get :: "request_data \<Rightarrow> string \<Rightarrow> string \<Rightarrow> exn + pyval" where
  \<comment> \<open>\<open>data.get(key, default)\<close>\<close>
  "data_get d key dflt =
     (case d of
        FormData m \<Rightarrow> Inr (Str (case m key of Some v \<Rightarrow> v | None \<Rightarrow> dflt))
      | JsonObject m \<Rightarrow> Inr (case m key of Some v \<Rightarrow> v | None \<Rightarrow> Str dflt)
      | JsonOther cls m \<Rightarrow> Inl (PyError cls m))"

definition no_attribute :: "string \<Rightarrow> string \<Rightarrow> exn" where
  "no_attribute ty attr =
     PyError ''AttributeError'' ([squote] @ ty @ [squote] @ '' object has no attribute ''
                                 @ [squote] @ attr @ [squote])"

datatype prepared =
    Raises exn                       \<comment> \<open>an exception inside the handler's \<open>try\<close>\<close>
  | Responds response                \<comment> \<open>an early \<open>return\<close>\<close>
  | Proceeds string string pyval     \<comment> \<open>the arguments of the pipeline call\<close>

definition prepare_download :: "request_data \<Rightarrow> prepared" where
  \<comment> \<open>the handler from reading the body up to the call of the pipeline\<close>
  "prepare_download d =
     (case data_get d ''url'' [] of
        Inl e \<Rightarrow> Raises e
      | Inr (NonStr ty) \<Rightarrow> Raises (no_attribute ty ''strip'')
      | Inr (Str u) \<Rightarrow>
          (let soundcloud_url = py_strip u
           in case data_get d ''format'' ''mp3'' of
                Inl e \<Rightarrow> Raises e
              | Inr (NonStr ty) \<Rightarrow> Raises (no_attribute ty ''lower'')
              | Inr (Str f) \<Rightarrow>
                  (let audio_format = py_lower f
                   in case data_get d ''quality'' ''192'' of
                        Inl e \<Rightarrow> Raises e
                      | Inr quality \<Rightarrow>
                          if soundcloud_url = []
                          then Responds (Json 400 [(''error'', JString ''Please provide a SoundCloud URL'')])
                          else if audio_format \<notin> set [''mp3'', ''wav'', ''aac'']
                          then Responds (Json 400 [(''error'', JString ''Unsupported audio format'')])
                          else if audio_format = ''mp3''
                                  \<and> quality \<notin> set [Str ''128'', Str ''192'', Str ''256'', Str ''320'']
                          then Proceeds soundcloud_url audio_format (Str ''192'')
                          else Proceeds soundcloud_url audio_format quality)))"

definition route_except :: "exn \<Rightarrow> response" where
  \<comment> \<open>the two \<open>except\<close> clauses of the handler\<close>
  "route_except e =
     (case e of
        DownloadError m \<Rightarrow> Json 400 [(''error'', JString m)]
      | PyError cls m \<Rightarrow> Json 500 [(''error'', JString ''An unexpected error occurred'')])"

definition send_file :: "config \<Rightarrow> fs \<Rightarrow> string \<Rightarrow> string \<Rightarrow> string \<Rightarrow> exn + response" where
  \<comment> \<open>\<open>send_file\<close> opens the file; the transmission itself happens after the handler
      has returned\<close>
  "send_file cfg fls name download_name mimetype =
     (case map_of fls name of
        None \<Rightarrow> Inl (no_such_file (DOWNLOADS_DIR cfg) name)
      | Some e \<Rightarrow>
          if is_file e
          then Inr (SendFile (os_path_join (DOWNLOADS_DIR cfg) name) download_name mimetype)
          else Inl (PyError ''IsADirectoryError''
                      (''[Errno 21] Is a directory: '' @ py_repr (os_path_join (DOWNLOADS_DIR cfg) name))))"

definition deliver :: "config \<Rightarrow> state \<Rightarrow> string \<Rightarrow> download_result \<Rightarrow> response \<times> state" where
  \<comment> \<open>the handler after the pipeline has returned its result\<close>
  "deliver cfg s audio_format res =
     (if \<not> success res then (Json 500 [(''error'', JString (message res))], s)
      else
        (let s' = s\<lparr>timers := timers s @ [(60, filename res)]\<rparr>
         in case send_file cfg (files s') (filename res) (filename res) (''audio/'' @ audio_format) of
              Inl e \<Rightarrow> (route_except e, s')
            | Inr r \<Rightarrow> (r, s')))"

definition download_route :: "config \<Rightarrow> env \<Rightarrow> state \<Rightarrow> request \<Rightarrow> response \<times> state" where
  "download_route cfg w s req =
     (case req_method req of
        GET \<Rightarrow> (Template ''index.html'', s)
      | POST \<Rightarrow>
          (case prepare_download (req_data req) of
             Raises e \<Rightarrow> (route_except e, s)
           | Responds r \<Rightarrow> (r, s)
           | Proceeds soundcloud_url audio_format quality \<Rightarrow>
               (case download_soundcloud_to_mp3 cfg w s soundcloud_url audio_format quality of
                  (Inl e, s') \<Rightarrow> (route_except e, s')
                | (Inr res, s') \<Rightarrow> deliver cfg s' audio_format res)))"

section \<open>Deferred deletion and the sweep\<close>

definition remove_file :: "config \<Rightarrow> state \<Rightarrow> string \<Rightarrow> state" where
  \<comment> \<open>the function that the timer calls; it returns normally whatever happens\<close>
  "remove_file cfg s name =
     (let base = os_path_basename (os_path_join (DOWNLOADS_DIR cfg) name)
      in if os_path_exists (files s) name
         then (case os_remove (DOWNLOADS_DIR cfg) (files s) name of
                 Inr files' \<Rightarrow> s\<lparr>files := files', logs := logs s @ [(''INFO'', ''Cleaned up file: '' @ base)]\<rparr>
               | Inl e \<Rightarrow> s\<lparr>logs := logs s @ [(''ERROR'', ''Error cleaning up file '' @ base @ '': '' @ str_exn e)]\<rparr>)
         else s)"

definition fire_timer :: "config \<Rightarrow> state \<Rightarrow> state" where
  \<comment> \<open>the oldest started timer expires: its function runs and the timer is gone\<close>
  "fire_timer cfg s =
     (case timers s of
        [] \<Rightarrow> s
      | (delay, name) # rest \<Rightarrow> remove_file cfg (s\<lparr>timers := rest\<rparr>) name)"

fun cleanup_loop :: "string \<Rightarrow> real \<Rightarrow> string list \<Rightarrow> fs \<Rightarrow> nat \<Rightarrow> (exn + nat) \<times> fs" where
  "cleanup_loop dir current_time [] fls cleaned = (Inr cleaned, fls)"
| "cleanup_loop dir current_time (fname # rest) fls cleaned =
     (if os_path_isfile fls fname
      then (case os_path_getmtime dir fls fname of
              Inl e \<Rightarrow> (Inl e, fls)
            | Inr m \<Rightarrow>
                if current_time - m > 3600
                then (case os_remove dir fls fname of
                        Inl e \<Rightarrow> (Inl e, fls)
                      | Inr fls' \<Rightarrow> cleanup_loop dir current_time rest fls' (cleaned + 1))
                else cleanup_loop dir current_time rest fls cleaned)
      else cleanup_loop dir current_time rest fls cleaned)"

definition cleanup_old_files :: "config \<Rightarrow> env \<Rightarrow> state \<Rightarrow> response \<times> state" where
  "cleanup_old_files cfg w s =
     (case cleanup_loop (DOWNLOADS_DIR cfg) (time_time w) (os_listdir (files s)) (files s) 0 of
        (Inr cleaned, fls') \<Rightarrow>
          (Json 200 [(''success'', JBool True), (''cleaned_files'', JInt (int cleaned))], s\<lparr>files := fls'\<rparr>)
      | (Inl e, fls') \<Rightarrow>
          (Json 500 [(''error'', JString ''Cleanup failed'')], s\<lparr>files := fls'\<rparr>))"

section \<open>Concrete configuration and environments for the scenarios\<close>

definition default_config :: config where
  \<comment> \<open>the defaults of \<open>DOWNLOADS_DIR\<close> and \<open>MAX_FILE_SIZE\<close>\<close>
  "default_config = \<lparr>DOWNLOADS_DIR = ''./downloads'', MAX_FILE_SIZE = 100 * 1024 * 1024\<rparr>"

definition empty_state :: state where
  "empty_state = \<lparr>files = [], launched = [], timers = [], logs = []\<rparr>"

text \<open>
  An environment in which \<open>validators.url\<close> accepts the \<open>https\<close> URLs of the scenarios,
  \<open>yt-dlp\<close> is installed, \<open>ffmpeg\<close> is installed or not, and the external tool ends with
  the given result and leaves the given directory behind.
\<close>

definition scenario_env :: "bool \<Rightarrow> proc_result \<Rightarrow> fs \<Rightarrow> env" where
  "scenario_env ffmpeg r out =
     \<lparr>validators_url = (\<lambda>u. startswith u ''https://''),
      urlparse_netloc = urlsplit_netloc,
      which = (\<lambda>n. n = ''yt-dlp'' \<or> (n = ''ffmpeg'' \<and> ffmpeg)),
      uuid4_str = ''ab12cd34-5e6f-4a7b-8c9d-0e1f2a3b4c5d'',
      now_strftime = ''20240101_120000'',
      time_time = 1704110400,
      signal_name = (\<lambda>n. if n = 9 then Some ''SIGKILL'' else None),
      subprocess_run = (\<lambda>cmd fls. (r, out))\<rparr>"

definition regular_file :: "nat \<Rightarrow> real \<Rightarrow> entry" where
  "regular_file sz t = \<lparr>is_file = True, size = sz, mtime = t\<rparr>"

definition directory :: "real \<Rightarrow> entry" where
  "directory t = \<lparr>is_file = False, size = 4096, mtime = t\<rparr>"

definition stale_at :: "real \<Rightarrow> entry \<Rightarrow> bool" where
  \<comment> \<open>a regular file last modified more than one hour before the time \<open>now\<close>\<close>
  "stale_at now e = (is_file e \<and> now - mtime e > 3600)"

definition stale :: "env \<Rightarrow> string \<times> entry \<Rightarrow> bool" where
  "stale w p = stale_at (time_time w) (snd p)"

definition sweep_dir :: fs where
  \<comment> \<open>one file modified two hours before the scenario's current time, one five minutes\<close>
  "sweep_dir = [(''old.mp3'', regular_file 1000 (1704110400 - 7200)),
                (''new.mp3'', regular_file 1000 (1704110400 - 300))]"


definition produced_dir :: fs where
  \<comment> \<open>the directory after the tool has written a file of 50000 bytes for the scenario job\<close>
  "produced_dir = [(''20240101_120000_ab12cd34_Song.mp3'', regular_file 50000 1704110400)]"

definition post_form :: "(string \<times> string) list \<Rightarrow> request" where
  "post_form kvs = \<lparr>req_method = POST, req_data = FormData (map_of kvs)\<rparr>"

definition post_json :: "(string \<times> pyval) list \<Rightarrow> request" where
  "post_json kvs = \<lparr>req_method = POST, req_data = JsonObject (map_of kvs)\<rparr>"

definition folder_dir :: fs where
  \<comment> \<open>a directory entry that is itself a directory and carries the scenario job's name\<close>
  "folder_dir = [(''20240101_120000_ab12cd34_Song.mp3'', directory 1704110400)]"

section \<open>Host, port and the allow-list\<close>

lemma py_lower_char_fixed:
  "c \<in> set ''@[:%'' \<Longrightarrow> py_lower_char c = c"
  by (auto simp: py_lower_char_def)

lemma py_lower_keeps:
  assumes "c \<in> set ''@[:%''" and "c \<in> set s"
  shows "c \<in> set (py_lower s)"
proof -
  from assms(2) have "py_lower_char c \<in> set (py_lower s)"
    by (simp add: py_lower_def)
  with assms(1) show ?thesis by (simp only: py_lower_char_fixed)
qed

lemma allowed_no_delims:
  assumes "py_lower s \<in> set ALLOWED_DOMAINS" and "c \<in> set ''@[:%''"
  shows "c \<notin> set s"
proof
  assume "c \<in> set s"
  with assms(2) have "c \<in> set (py_lower s)" by (rule py_lower_keeps)
  with assms show False by (auto simp: ALLOWED_DOMAINS_def)
qed





lemma partition_after_nonempty: "partition_after c s \<noteq> [] \<Longrightarrow> c \<in> set s"
  by (induction s) (auto simp: partition_after_def split: if_splits)

lemma set_partition_after: "set (partition_after c s) \<subseteq> set s"
proof -
  have "set (drop 1 (dropWhile (\<lambda>x. x \<noteq> c) s)) \<subseteq> set (dropWhile (\<lambda>x. x \<noteq> c) s)"
    by (rule set_drop_subset)
  also have "\<dots> \<subseteq> set s" by (auto dest: set_dropWhileD)
  finally show ?thesis by (simp add: partition_after_def)
qed

lemma set_rpartition_at: "set (rpartition_at s) \<subseteq> set s"
proof -
  have "set (takeWhile (\<lambda>c. c \<noteq> CHR ''@'') (rev s)) \<subseteq> set (rev s)"
    by (auto dest: set_takeWhileD)
  then show ?thesis by (simp add: rpartition_at_def)
qed

lemma port_has_colon:
  assumes "netloc_port s \<noteq> None"
  shows "CHR '':'' \<in> set s"
proof -
  from assms have ne: "snd (hostinfo s) \<noteq> []"
    by (auto simp: netloc_port_def Let_def split: if_splits)
  have "CHR '':'' \<in> set (rpartition_at s)"
  proof (cases "CHR ''['' \<in> set (rpartition_at s)")
    case True
    with ne have "CHR '':'' \<in> set (partition_after CHR '']'' (partition_after CHR ''['' (rpartition_at s)))"
      by (simp add: hostinfo_def Let_def partition_after_nonempty)
    then show ?thesis
      using set_partition_after by blast
  next
    case False
    with ne show ?thesis
      by (simp add: hostinfo_def Let_def partition_after_nonempty)
  qed
  with set_rpartition_at show ?thesis by blast
qed


lemma validate_rejects_foreign_netloc:
  assumes "urlparse_netloc w url = Inr netloc" and "py_lower netloc \<notin> set ALLOWED_DOMAINS"
  shows "validate_soundcloud_url w url =
           Inr (False, if validators_url w url then ''URL must be from SoundCloud'' else ''Invalid URL format'')"
  using assms by (simp add: validate_soundcloud_url_def)






text \<open>
  Claim C10. The validator compares the whole netloc with the allow-list. A URL whose
  host is allow-listed and whose netloc carries an explicit port is therefore invalid:
  the lower-cased netloc is not in the list. The witness is
  \<open>https://soundcloud.com:443/track\<close>.
\<close>

theorem C10_port_rejected:
  assumes "urlparse_netloc w url = Inr netloc"
    and "netloc_hostname netloc \<in> set ALLOWED_DOMAINS"
    and "netloc_port netloc \<noteq> None"
  shows "py_lower netloc \<notin> set ALLOWED_DOMAINS \<and>
         validate_soundcloud_url w url =
           Inr (False, if validators_url w url then ''URL must be from SoundCloud''
                       else ''Invalid URL format'')"
proof -
  from assms(3) have "CHR '':'' \<in> set netloc" by (rule port_has_colon)
  then have "py_lower netloc \<notin> set ALLOWED_DOMAINS"
    using allowed_no_delims [of netloc "CHR '':''"] by auto
  with validate_rejects_foreign_netloc [OF assms(1)] show ?thesis by simp
qed

lemma port_netloc: "urlsplit_netloc ''https://soundcloud.com:443/track'' = Inr ''soundcloud.com:443''"
  by code_simp

lemma port_host: "netloc_hostname ''soundcloud.com:443'' \<in> set ALLOWED_DOMAINS"
  by code_simp

lemma port_port: "netloc_port ''soundcloud.com:443'' = Some ''443''"
  by code_simp

theorem C10_port_rejected_witness:
  "urlparse_netloc (scenario_env True TimedOut []) ''https://soundcloud.com:443/track''
     = Inr ''soundcloud.com:443''
   \<and> netloc_hostname ''soundcloud.com:443'' = ''soundcloud.com''
   \<and> netloc_hostname ''soundcloud.com:443'' \<in> set ALLOWED_DOMAINS
   \<and> netloc_port ''soundcloud.com:443'' = Some ''443''
   \<and> validate_soundcloud_url (scenario_env True TimedOut []) ''https://soundcloud.com:443/track''
        = Inr (False, ''URL must be from SoundCloud'')"
proof -
  have n: "urlparse_netloc (scenario_env True TimedOut []) ''https://soundcloud.com:443/track''
             = Inr ''soundcloud.com:443''"
    by (simp add: scenario_env_def port_netloc)
  have v: "validators_url (scenario_env True TimedOut []) ''https://soundcloud.com:443/track''"
    by (simp add: scenario_env_def startswith_def)
  have p: "netloc_port ''soundcloud.com:443'' \<noteq> None"
    by (simp add: port_port)
  have h: "netloc_hostname ''soundcloud.com:443'' = ''soundcloud.com''"
    by code_simp
  from C10_port_rejected [OF n port_host p] show ?thesis
    using n v h port_host port_port by simp
qed

section \<open>The pipeline after validation\<close>

lemma try_body_runs:
  assumes "validate_soundcloud_url w url = Inr (True, msg)"
    and "check_dependencies w = []"
    and "py_lower fmt = ''mp3'' \<longrightarrow> quality = Str q"
  shows "try_body cfg w s url fmt quality =
           run_command cfg w s (download_command cfg w url fmt q)
             (now_strftime w) (take 8 (uuid4_str w)) fmt"
  using assms by (simp add: try_body_def download_command_def Let_def)

lemma run_command_exit0:
  assumes "subprocess_run w cmd (files s) = (Exit 0 out err, fls')"
  shows "run_command cfg w s cmd ts job fmt =
           check_downloaded cfg (s\<lparr>files := fls', launched := launched s @ [cmd]\<rparr>) ts job fmt"
  using assms by (simp add: run_command_def)




lemma removed_gone: "\<not> os_path_exists (filter (\<lambda>p. fst p \<noteq> name) fls) name"
proof -
  have "name \<notin> fst ` set (filter (\<lambda>p. fst p \<noteq> name) fls)" by auto
  then show ?thesis by (simp add: os_path_exists_def map_of_eq_None_iff)
qed


section \<open>The scenario environment\<close>

lemma track_netloc: "urlsplit_netloc ''https://soundcloud.com/a/b'' = Inr ''soundcloud.com''"
  by code_simp

lemma track_lower: "py_lower ''soundcloud.com'' = ''soundcloud.com''"
  by code_simp

lemma scenario_valid:
  "validate_soundcloud_url (scenario_env ff r out) ''https://soundcloud.com/a/b'' = Inr (True, ''Valid URL'')"
  by (simp add: validate_soundcloud_url_def scenario_env_def startswith_def track_netloc track_lower
      ALLOWED_DOMAINS_def)

lemma scenario_deps: "check_dependencies (scenario_env True r out) = []"
  by (simp add: check_dependencies_def scenario_env_def)

lemma scenario_run: "subprocess_run (scenario_env ff r out) cmd fls = (r, out)"
  by (simp add: scenario_env_def)

lemma scenario_stamp:
  "now_strftime (scenario_env ff r out) = ''20240101_120000''"
  "take 8 (uuid4_str (scenario_env ff r out)) = ''ab12cd34''"
  by (simp_all add: scenario_env_def)

lemma mp3_lower: "py_lower ''mp3'' = ''mp3''"
  by code_simp

lemma max_size_str: "str_of_int 104857600 = ''104857600''"
  by (simp add: str_of_int_def str_of_nat.simps digit_char_def)

lemma scenario_command:
  "download_command default_config (scenario_env ff r out) ''https://soundcloud.com/a/b'' ''mp3'' q =
     [''yt-dlp'', ''--extract-audio'', ''--audio-format'', ''mp3'',
      ''--output'', ''./downloads/20240101_120000_ab12cd34_%(title)s.%(ext)s'',
      ''--no-playlist'', ''--max-filesize'', ''104857600'',
      ''https://soundcloud.com/a/b'', ''--audio-quality'', q]"
  by (simp add: download_command_def build_command_def default_config_def scenario_stamp mp3_lower
      max_size_str)




section \<open>Failures of the external tool and their HTTP status\<close>

lemma run_command_nonzero:
  assumes "subprocess_run w cmd (files s) = (Exit rc out err, fls')" and "rc \<noteq> 0"
  shows "run_command cfg w s cmd ts job fmt =
           (Inl (CalledProcessError cmd rc err), s\<lparr>files := fls', launched := launched s @ [cmd]\<rparr>)"
  using assms by (simp add: run_command_def)

lemma run_command_timeout:
  assumes "subprocess_run w cmd (files s) = (TimedOut, fls')"
  shows "run_command cfg w s cmd ts job fmt =
           (Inl TimeoutExpired, s\<lparr>files := fls', launched := launched s @ [cmd]\<rparr>)"
  using assms by (simp add: run_command_def)

lemma nonzero_exit_with_stderr:
  assumes "validate_soundcloud_url w url = Inr (True, msg)"
    and "check_dependencies w = []"
    and "py_lower fmt = ''mp3'' \<longrightarrow> quality = Str q"
    and "subprocess_run w (download_command cfg w url fmt q) (files s) = (Exit rc out err, fls')"
    and "rc \<noteq> 0" and "err \<noteq> []"
  shows "download_soundcloud_to_mp3 cfg w s url fmt quality =
           (Inl decode_error,
            s\<lparr>files := fls', launched := launched s @ [download_command cfg w url fmt q]\<rparr>)"
  using assms(6)
  by (simp add: download_soundcloud_to_mp3_def try_body_runs [OF assms(1-3)]
      run_command_nonzero [OF assms(4,5)])

lemma pipeline_timeout:
  assumes "validate_soundcloud_url w url = Inr (True, msg)"
    and "check_dependencies w = []"
    and "py_lower fmt = ''mp3'' \<longrightarrow> quality = Str q"
    and "subprocess_run w (download_command cfg w url fmt q) (files s) = (TimedOut, fls')"
  shows "download_soundcloud_to_mp3 cfg w s url fmt quality =
           (Inl (DownloadError ''Download timeout - file may be too large or connection slow''),
            s\<lparr>files := fls', launched := launched s @ [download_command cfg w url fmt q]\<rparr>)"
  by (simp add: download_soundcloud_to_mp3_def try_body_runs [OF assms(1-3)]
      run_command_timeout [OF assms(4)])

lemma pipeline_missing_dependencies:
  assumes "validate_soundcloud_url w url = Inr (True, msg)"
    and "check_dependencies w \<noteq> []"
  shows "download_soundcloud_to_mp3 cfg w s url fmt quality =
           (Inl (DownloadError (''Unexpected error: Missing dependencies: ''
                                @ py_join '', '' (check_dependencies w))), s)"
  using assms by (simp add: download_soundcloud_to_mp3_def try_body_def)

lemma route_pipeline_failure:
  assumes "req_method req = POST"
    and "prepare_download (req_data req) = Proceeds url fmt q"
    and "download_soundcloud_to_mp3 cfg w s url fmt q = (Inl e, s')"
  shows "download_route cfg w s req = (route_except e, s')"
  using assms by (simp add: download_route_def)

text \<open>
  Claim C2, as amended. Every failure that the pipeline raises as a \<open>DownloadError\<close>,
  whatever its cause, is answered by the handler of \<open>POST /\<close> with status 400 and the
  JSON body \<open>{"error": message}\<close>.
\<close>

theorem C2_download_error_is_400:
  assumes "req_method req = POST"
    and "prepare_download (req_data req) = Proceeds url fmt q"
    and "download_soundcloud_to_mp3 cfg w s url fmt q = (Inl (DownloadError m), s')"
  shows "download_route cfg w s req = (Json 400 [(''error'', JString m)], s')
         \<and> status_code (fst (download_route cfg w s req)) = 400"
  using route_pipeline_failure [OF assms] by (simp add: route_except_def)

lemma track_strip: "py_strip ''https://soundcloud.com/a/b'' = ''https://soundcloud.com/a/b''"
  by code_simp

lemma form_default_prepared:
  "prepare_download (req_data (post_form [(''url'', ''https://soundcloud.com/a/b'')]))
     = Proceeds ''https://soundcloud.com/a/b'' ''mp3'' (Str ''192'')"
  by (simp add: prepare_download_def data_get_def post_form_def track_strip mp3_lower)

lemma post_form_method: "req_method (post_form kvs) = POST"
  by (simp add: post_form_def)

text \<open>
  Claim C1, evaluated where it fails. The tool ends with status 1 and the stderr text
  \<open>ERROR: Private video\<close>. The handler of \<open>CalledProcessError\<close> calls \<open>decode()\<close> on that
  text, which is a \<open>str\<close> because \<open>subprocess.run\<close> was given \<open>text=True\<close>: an
  \<open>AttributeError\<close> leaves the pipeline and the classification of the text is never
  reached.
\<close>

theorem C1_stderr_not_classified:
  "download_soundcloud_to_mp3 default_config
     (scenario_env True (Exit 1 [] ''ERROR: Private video'') []) empty_state
     ''https://soundcloud.com/a/b'' ''mp3'' (Str ''192'')
   = (Inl (PyError ''AttributeError'' (CHR 0x27 # ''str'' @ CHR 0x27 # '' object has no attribute ''
                                        @ CHR 0x27 # ''decode'' @ [CHR 0x27])),
      empty_state\<lparr>launched := [[''yt-dlp'', ''--extract-audio'', ''--audio-format'', ''mp3'',
          ''--output'', ''./downloads/20240101_120000_ab12cd34_%(title)s.%(ext)s'',
          ''--no-playlist'', ''--max-filesize'', ''104857600'',
          ''https://soundcloud.com/a/b'', ''--audio-quality'', ''192'']]\<rparr>)
   \<and> download_route default_config
       (scenario_env True (Exit 1 [] ''ERROR: Private video'') []) empty_state
       (post_form [(''url'', ''https://soundcloud.com/a/b'')])
     = (Json 500 [(''error'', JString ''An unexpected error occurred'')],
        empty_state\<lparr>launched := [[''yt-dlp'', ''--extract-audio'', ''--audio-format'', ''mp3'',
          ''--output'', ''./downloads/20240101_120000_ab12cd34_%(title)s.%(ext)s'',
          ''--no-playlist'', ''--max-filesize'', ''104857600'',
          ''https://soundcloud.com/a/b'', ''--audio-quality'', ''192'']]\<rparr>)"
proof -
  have "(1::int) \<noteq> 0" and "''ERROR: Private video'' \<noteq> []" by simp_all
  from nonzero_exit_with_stderr [OF scenario_valid scenario_deps _ scenario_run this,
      where quality = "Str ''192''" and q = "''192''" and cfg = default_config and s = empty_state]
  have p: "download_soundcloud_to_mp3 default_config
     (scenario_env True (Exit 1 [] ''ERROR: Private video'') []) empty_state
     ''https://soundcloud.com/a/b'' ''mp3'' (Str ''192'')
   = (Inl (PyError ''AttributeError'' (CHR 0x27 # ''str'' @ CHR 0x27 # '' object has no attribute ''
                                        @ CHR 0x27 # ''decode'' @ [CHR 0x27])),
      empty_state\<lparr>launched := [[''yt-dlp'', ''--extract-audio'', ''--audio-format'', ''mp3'',
          ''--output'', ''./downloads/20240101_120000_ab12cd34_%(title)s.%(ext)s'',
          ''--no-playlist'', ''--max-filesize'', ''104857600'',
          ''https://soundcloud.com/a/b'', ''--audio-quality'', ''192'']]\<rparr>)"
    by (simp add: scenario_command empty_state_def decode_error_def squote_def)
  from route_pipeline_failure [OF post_form_method form_default_prepared p] p
  show ?thesis by (simp add: route_except_def)
qed

lemma scenario_no_ffmpeg: "check_dependencies (scenario_env False r out) = [''ffmpeg'']"
  by (simp add: check_dependencies_def scenario_env_def)

lemma missing_ffmpeg_pipeline:
  "download_soundcloud_to_mp3 default_config (scenario_env False TimedOut []) empty_state
     ''https://soundcloud.com/a/b'' ''mp3'' (Str ''192'')
   = (Inl (DownloadError ''Unexpected error: Missing dependencies: ffmpeg''), empty_state)"
  using pipeline_missing_dependencies [OF scenario_valid, of False TimedOut "[]"]
  by (simp add: scenario_no_ffmpeg)

text \<open>
  Claim C2 as stated fails: with \<open>ffmpeg\<close> missing the pipeline fails with a
  missing-dependency error, and the response has status 400, not 500.
\<close>

theorem C2_missing_dependency_counterexample:
  "download_soundcloud_to_mp3 default_config (scenario_env False TimedOut []) empty_state
     ''https://soundcloud.com/a/b'' ''mp3'' (Str ''192'')
     = (Inl (DownloadError ''Unexpected error: Missing dependencies: ffmpeg''), empty_state)
   \<and> download_route default_config (scenario_env False TimedOut []) empty_state
       (post_form [(''url'', ''https://soundcloud.com/a/b'')])
     = (Json 400 [(''error'', JString ''Unexpected error: Missing dependencies: ffmpeg'')], empty_state)
   \<and> status_code (fst (download_route default_config (scenario_env False TimedOut []) empty_state
       (post_form [(''url'', ''https://soundcloud.com/a/b'')]))) \<noteq> 500"
  using route_pipeline_failure [OF post_form_method form_default_prepared missing_ffmpeg_pipeline]
  by (simp add: missing_ffmpeg_pipeline route_except_def)

theorem C2_download_error_is_400_witness:
  "download_route default_config (scenario_env True TimedOut []) empty_state
       (post_form [(''url'', ''https://soundcloud.com/a/b'')])
     = (Json 400 [(''error'', JString ''Download timeout - file may be too large or connection slow'')],
        empty_state\<lparr>launched :=
        [[''yt-dlp'', ''--extract-audio'', ''--audio-format'', ''mp3'',
          ''--output'', ''./downloads/20240101_120000_ab12cd34_%(title)s.%(ext)s'',
          ''--no-playlist'', ''--max-filesize'', ''104857600'',
          ''https://soundcloud.com/a/b'', ''--audio-quality'', ''192'']]\<rparr>)"
proof -
  have p: "download_soundcloud_to_mp3 default_config (scenario_env True TimedOut []) empty_state
       ''https://soundcloud.com/a/b'' ''mp3'' (Str ''192'')
     = (Inl (DownloadError ''Download timeout - file may be too large or connection slow''),
        empty_state\<lparr>files := [], launched := launched empty_state @
          [download_command default_config (scenario_env True TimedOut []) ''https://soundcloud.com/a/b''
             ''mp3'' ''192'']\<rparr>)"
    using pipeline_timeout [OF scenario_valid scenario_deps _ scenario_run,
        where quality = "Str ''192''" and q = "''192''" and cfg = default_config and s = empty_state]
    by simp
  from C2_download_error_is_400 [OF post_form_method form_default_prepared p]
  show ?thesis by (simp add: scenario_command empty_state_def)
qed

section \<open>Format and quality in the request handler\<close>

lemma pipeline_success:
  assumes "validate_soundcloud_url w url = Inr (True, msg)"
    and "check_dependencies w = []"
    and "py_lower fmt = ''mp3'' \<longrightarrow> quality = Str q"
    and "subprocess_run w (download_command cfg w url fmt q) (files s) = (Exit 0 out err, fls')"
    and "find_downloaded fls' (now_strftime w) (take 8 (uuid4_str w)) fmt = fname # others"
    and "map_of fls' fname = Some e"
    and "\<not> int (size e) > MAX_FILE_SIZE cfg"
  shows "download_soundcloud_to_mp3 cfg w s url fmt quality =
           (Inr \<lparr>success = True, filename = fname, file_size = size e,
                  message = ''Download completed successfully''\<rparr>,
            s\<lparr>files := fls', launched := launched s @ [download_command cfg w url fmt q]\<rparr>)"
  using assms(5-7)
  by (simp add: download_soundcloud_to_mp3_def try_body_runs [OF assms(1-3)]
      run_command_exit0 [OF assms(4)] check_downloaded_def os_path_getsize_def)

lemma route_pipeline_success:
  assumes "req_method req = POST"
    and "prepare_download (req_data req) = Proceeds url fmt q"
    and "download_soundcloud_to_mp3 cfg w s url fmt q = (Inr res, s')"
  shows "download_route cfg w s req = deliver cfg s' fmt res"
  using assms by (simp add: download_route_def)

lemma route_early_response:
  assumes "req_method req = POST"
    and "prepare_download (req_data req) = Responds r"
  shows "download_route cfg w s req = (r, s)"
  using assms by (simp add: download_route_def)

lemma route_early_raise:
  assumes "req_method req = POST"
    and "prepare_download (req_data req) = Raises e"
  shows "download_route cfg w s req = (route_except e, s)"
  using assms by (simp add: download_route_def)

text \<open>
  Claim C5, as amended. A \<open>POST /\<close> request whose \<open>url\<close> and \<open>format\<close> fields are text
  (or absent) and whose \<open>format\<close>, lower-cased, is not \<open>mp3\<close>, \<open>wav\<close> or \<open>aac\<close> is answered
  with status 400 before the pipeline is called: the handler returns early and the state
  (directory, launched commands, timers) is unchanged, in every environment.
\<close>

theorem C5_unsupported_format:
  assumes "req_method req = POST"
    and "data_get (req_data req) ''url'' [] = Inr (Str u)"
    and "data_get (req_data req) ''format'' ''mp3'' = Inr (Str f)"
    and "py_lower f \<notin> set [''mp3'', ''wav'', ''aac'']"
  shows "prepare_download (req_data req) =
           Responds (Json 400 [(''error'', JString (if py_strip u = [] then ''Please provide a SoundCloud URL''
                                                    else ''Unsupported audio format''))])
         \<and> download_route cfg w s req =
           (Json 400 [(''error'', JString (if py_strip u = [] then ''Please provide a SoundCloud URL''
                                           else ''Unsupported audio format''))], s)"
proof -
  have "data_get (req_data req) ''quality'' ''192'' \<noteq> Inl e" for e
    using assms(2) by (auto simp: data_get_def split: request_data.splits)
  then obtain qv where "data_get (req_data req) ''quality'' ''192'' = Inr qv"
    by (cases "data_get (req_data req) ''quality'' ''192''") auto
  with assms(2-4) have p: "prepare_download (req_data req) =
      Responds (Json 400 [(''error'', JString (if py_strip u = [] then ''Please provide a SoundCloud URL''
                                               else ''Unsupported audio format''))])"
    by (simp add: prepare_download_def)
  from route_early_response [OF assms(1) p] p show ?thesis by simp
qed

text \<open>
  Claim C6. A \<open>POST /\<close> request that reaches the format and quality checks (its \<open>url\<close>
  is text and not blank), with a format that lower-cases to \<open>mp3\<close> and a quality that
  is none of the strings \<open>128\<close>, \<open>192\<close>, \<open>256\<close>, \<open>320\<close>, calls the pipeline with the
  trimmed URL, \<open>mp3\<close> and the quality \<open>192\<close>, and the response is the one that this call
  yields: the quality sent has no other effect and causes no error.
\<close>

theorem C6_quality_coerced:
  assumes "req_method req = POST"
    and "data_get (req_data req) ''url'' [] = Inr (Str u)"
    and "py_strip u \<noteq> []"
    and "data_get (req_data req) ''format'' ''mp3'' = Inr (Str f)"
    and "py_lower f = ''mp3''"
    and "data_get (req_data req) ''quality'' ''192'' = Inr qv"
    and "qv \<notin> set [Str ''128'', Str ''192'', Str ''256'', Str ''320'']"
  shows "prepare_download (req_data req) = Proceeds (py_strip u) ''mp3'' (Str ''192'')
         \<and> download_route cfg w s req =
             (case download_soundcloud_to_mp3 cfg w s (py_strip u) ''mp3'' (Str ''192'') of
                (Inl e, s') \<Rightarrow> (route_except e, s')
              | (Inr res, s') \<Rightarrow> deliver cfg s' ''mp3'' res)"
proof -
  from assms(2-7) have p: "prepare_download (req_data req) = Proceeds (py_strip u) ''mp3'' (Str ''192'')"
    by (simp add: prepare_download_def)
  with assms(1) show ?thesis by (simp add: download_route_def)
qed

lemma upper_mp3: "py_lower ''MP3'' = ''mp3''"
  by code_simp

lemma flac_lower: "py_lower ''flac'' = ''flac''"
  by code_simp

lemma produced_found:
  "find_downloaded produced_dir ''20240101_120000'' ''ab12cd34'' ''mp3'' = [''20240101_120000_ab12cd34_Song.mp3'']"
  by (simp add: find_downloaded_def os_listdir_def produced_dir_def startswith_def endswith_def mp3_lower)

lemma scenario_success:
  "download_soundcloud_to_mp3 default_config (scenario_env True (Exit 0 [] []) produced_dir) empty_state
     ''https://soundcloud.com/a/b'' ''mp3'' (Str q)
   = (Inr \<lparr>success = True, filename = ''20240101_120000_ab12cd34_Song.mp3'', file_size = 50000,
            message = ''Download completed successfully''\<rparr>,
      \<lparr>files = produced_dir,
       launched = [[''yt-dlp'', ''--extract-audio'', ''--audio-format'', ''mp3'',
          ''--output'', ''./downloads/20240101_120000_ab12cd34_%(title)s.%(ext)s'',
          ''--no-playlist'', ''--max-filesize'', ''104857600'',
          ''https://soundcloud.com/a/b'', ''--audio-quality'', q]],
       timers = [], logs = []\<rparr>)"
proof -
  have f: "find_downloaded produced_dir (now_strftime (scenario_env True (Exit 0 [] []) produced_dir))
             (take 8 (uuid4_str (scenario_env True (Exit 0 [] []) produced_dir))) ''mp3''
           = ''20240101_120000_ab12cd34_Song.mp3'' # []"
    by (simp add: scenario_stamp produced_found)
  have m: "map_of produced_dir ''20240101_120000_ab12cd34_Song.mp3'' = Some (regular_file 50000 1704110400)"
    by (simp add: produced_dir_def)
  have g: "\<not> int (size (regular_file 50000 1704110400)) > MAX_FILE_SIZE default_config"
    by (simp add: regular_file_def default_config_def)
  from pipeline_success [OF scenario_valid scenario_deps _ scenario_run f m g,
      where quality = "Str q" and q = q and s = empty_state]
  show ?thesis by (simp add: scenario_command empty_state_def regular_file_def)
qed

lemma scenario_deliver:
  "deliver default_config \<lparr>files = produced_dir, launched = cmds, timers = [], logs = []\<rparr> ''mp3''
     \<lparr>success = True, filename = ''20240101_120000_ab12cd34_Song.mp3'', file_size = 50000,
      message = ''Download completed successfully''\<rparr>
   = (SendFile ''./downloads/20240101_120000_ab12cd34_Song.mp3'' ''20240101_120000_ab12cd34_Song.mp3''
        ''audio/mp3'',
      \<lparr>files = produced_dir, launched = cmds,
       timers = [(60, ''20240101_120000_ab12cd34_Song.mp3'')], logs = []\<rparr>)"
  by (simp add: deliver_def send_file_def produced_dir_def regular_file_def os_path_join_def
      startswith_def endswith_def default_config_def)


lemma scenario_delivered:
  assumes "prepare_download (req_data (post_form kvs)) = Proceeds ''https://soundcloud.com/a/b'' ''mp3'' (Str ''192'')"
  shows "download_route default_config (scenario_env True (Exit 0 [] []) produced_dir) empty_state
           (post_form kvs)
         = (SendFile ''./downloads/20240101_120000_ab12cd34_Song.mp3'' ''20240101_120000_ab12cd34_Song.mp3''
              ''audio/mp3'',
            \<lparr>files = produced_dir, launched = [[''yt-dlp'', ''--extract-audio'', ''--audio-format'', ''mp3'',
          ''--output'', ''./downloads/20240101_120000_ab12cd34_%(title)s.%(ext)s'',
          ''--no-playlist'', ''--max-filesize'', ''104857600'',
          ''https://soundcloud.com/a/b'', ''--audio-quality'', ''192'']],
             timers = [(60, ''20240101_120000_ab12cd34_Song.mp3'')], logs = []\<rparr>)"
  by (simp add: route_pipeline_success [OF post_form_method assms scenario_success] scenario_deliver)

lemma upper_case_prepared:
  "prepare_download (req_data (post_form [(''url'', ''https://soundcloud.com/a/b''), (''format'', ''MP3'')]))
     = Proceeds ''https://soundcloud.com/a/b'' ''mp3'' (Str ''192'')"
  by (simp add: prepare_download_def data_get_def post_form_def track_strip upper_mp3)

lemma number_format_prepared:
  "prepare_download (req_data (post_json [(''url'', Str ''https://soundcloud.com/a/b''),
                                          (''format'', NonStr ''int'')]))
     = Raises (no_attribute ''int'' ''lower'')"
  by (simp add: prepare_download_def data_get_def post_json_def track_strip)

lemma post_json_method: "req_method (post_json kvs) = POST"
  by (simp add: post_json_def)

text \<open>
  Claim C5 as stated fails: the format \<open>MP3\<close> is none of the three strings, yet it is
  lower-cased and the download runs; and a JSON body whose format is a number is answered
  with status 500.
\<close>

theorem C5_upper_case_counterexample:
  "''MP3'' \<notin> set [''mp3'', ''wav'', ''aac'']
   \<and> download_route default_config (scenario_env True (Exit 0 [] []) produced_dir) empty_state
         (post_form [(''url'', ''https://soundcloud.com/a/b''), (''format'', ''MP3'')])
       = (SendFile ''./downloads/20240101_120000_ab12cd34_Song.mp3'' ''20240101_120000_ab12cd34_Song.mp3''
            ''audio/mp3'',
          \<lparr>files = produced_dir, launched = [[''yt-dlp'', ''--extract-audio'', ''--audio-format'', ''mp3'',
          ''--output'', ''./downloads/20240101_120000_ab12cd34_%(title)s.%(ext)s'',
          ''--no-playlist'', ''--max-filesize'', ''104857600'',
          ''https://soundcloud.com/a/b'', ''--audio-quality'', ''192'']],
           timers = [(60, ''20240101_120000_ab12cd34_Song.mp3'')], logs = []\<rparr>)
   \<and> download_route default_config (scenario_env True (Exit 0 [] []) produced_dir) empty_state
         (post_json [(''url'', Str ''https://soundcloud.com/a/b''), (''format'', NonStr ''int'')])
       = (Json 500 [(''error'', JString ''An unexpected error occurred'')], empty_state)"
  by (simp add: scenario_delivered [OF upper_case_prepared]
      route_early_raise [OF post_json_method number_format_prepared] route_except_def no_attribute_def)

theorem C5_unsupported_format_witness:
  "download_route default_config (scenario_env True (Exit 0 [] []) produced_dir) empty_state
         (post_form [(''url'', ''https://soundcloud.com/a/b''), (''format'', ''flac'')])
       = (Json 400 [(''error'', JString ''Unsupported audio format'')], empty_state)"
proof -
  let ?req = "post_form [(''url'', ''https://soundcloud.com/a/b''), (''format'', ''flac'')]"
  have u: "data_get (req_data ?req) ''url'' [] = Inr (Str ''https://soundcloud.com/a/b'')"
    by (simp add: data_get_def post_form_def)
  have f: "data_get (req_data ?req) ''format'' ''mp3'' = Inr (Str ''flac'')"
    by (simp add: data_get_def post_form_def)
  have n: "py_lower ''flac'' \<notin> set [''mp3'', ''wav'', ''aac'']"
    by (simp add: flac_lower)
  from C5_unsupported_format [OF post_form_method u f n] show ?thesis
    by (simp add: track_strip)
qed

theorem C6_quality_coerced_witness:
  "download_route default_config (scenario_env True (Exit 0 [] []) produced_dir) empty_state
         (post_form [(''url'', ''https://soundcloud.com/a/b''), (''format'', ''mp3''), (''quality'', ''999'')])
       = (SendFile ''./downloads/20240101_120000_ab12cd34_Song.mp3'' ''20240101_120000_ab12cd34_Song.mp3''
            ''audio/mp3'',
          \<lparr>files = produced_dir, launched = [[''yt-dlp'', ''--extract-audio'', ''--audio-format'', ''mp3'',
          ''--output'', ''./downloads/20240101_120000_ab12cd34_%(title)s.%(ext)s'',
          ''--no-playlist'', ''--max-filesize'', ''104857600'',
          ''https://soundcloud.com/a/b'', ''--audio-quality'', ''192'']],
           timers = [(60, ''20240101_120000_ab12cd34_Song.mp3'')], logs = []\<rparr>)"
proof -
  let ?req = "post_form [(''url'', ''https://soundcloud.com/a/b''), (''format'', ''mp3''), (''quality'', ''999'')]"
  have u: "data_get (req_data ?req) ''url'' [] = Inr (Str ''https://soundcloud.com/a/b'')"
    by (simp add: data_get_def post_form_def)
  have f: "data_get (req_data ?req) ''format'' ''mp3'' = Inr (Str ''mp3'')"
    by (simp add: data_get_def post_form_def)
  have q: "data_get (req_data ?req) ''quality'' ''192'' = Inr (Str ''999'')"
    by (simp add: data_get_def post_form_def)
  have ne: "py_strip ''https://soundcloud.com/a/b'' \<noteq> []"
    by (simp add: track_strip)
  have bad: "Str ''999'' \<notin> set [Str ''128'', Str ''192'', Str ''256'', Str ''320'']"
    by simp
  from C6_quality_coerced [OF post_form_method u ne f mp3_lower q bad,
      of default_config "scenario_env True (Exit 0 [] []) produced_dir" empty_state]
  show ?thesis by (simp add: track_strip scenario_success scenario_deliver)
qed

section \<open>The sweep\<close>

lemma entry_of_name:
  assumes "distinct (map fst xs)" and "map_of xs n = Some e" and "p \<in> set xs" and "fst p = n"
  shows "snd p = e"
proof -
  from assms(3,4) have "(n, snd p) \<in> set xs" by (cases p) auto
  with assms(1) have "map_of xs n = Some (snd p)" by simp
  with assms(2) show ?thesis by simp
qed

lemma absent_name:
  assumes "map_of xs n = None" and "p \<in> set xs"
  shows "fst p \<noteq> n"
  using assms by (auto simp: map_of_eq_None_iff)

lemma length_after_remove:
  assumes "distinct (map fst xs)" and "map_of xs n = Some e"
  shows "length (filter (\<lambda>p. fst p \<noteq> n) xs) + 1 = length xs"
  using assms
proof (induction xs)
  case Nil
  then show ?case by simp
next
  case (Cons x xs)
  show ?case
  proof (cases "fst x = n")
    case True
    with Cons.prems(1) have "\<forall>p \<in> set xs. fst p \<noteq> n" by (auto simp: image_iff)
    then have "filter (\<lambda>p. fst p \<noteq> n) xs = xs" by (simp add: filter_id_conv)
    with True show ?thesis by simp
  next
    case False
    with Cons.prems have "map_of xs n = Some e" by (cases x) (auto split: if_splits)
    with Cons.IH Cons.prems(1) False show ?thesis by simp
  qed
qed

lemma cleanup_loop_result:
  assumes "distinct (map fst fls)"
  shows "\<exists>k. cleanup_loop dir now names fls c =
              (Inr k, filter (\<lambda>p. \<not> (fst p \<in> set names \<and> stale_at now (snd p))) fls)
           \<and> k + length (filter (\<lambda>p. \<not> (fst p \<in> set names \<and> stale_at now (snd p))) fls)
               = c + length fls"
  using assms
proof (induction names arbitrary: fls c)
  case Nil
  show ?case by simp
next
  case (Cons n rest)
  let ?P = "\<lambda>ns p. \<not> (fst p \<in> set ns \<and> stale_at now (snd p))"
  show ?case
  proof (cases "map_of fls n")
    case None
    then have same: "filter (?P (n # rest)) fls = filter (?P rest) fls"
      by (intro filter_cong refl) (auto dest: absent_name)
    from None have "cleanup_loop dir now (n # rest) fls c = cleanup_loop dir now rest fls c"
      by (simp add: os_path_isfile_def)
    with Cons.IH [OF Cons.prems, of c] same show ?thesis by simp
  next
    case (Some e)
    show ?thesis
    proof (cases "stale_at now e")
      case False
      have same: "filter (?P (n # rest)) fls = filter (?P rest) fls"
        using False entry_of_name [OF Cons.prems Some]
        by (intro filter_cong refl) auto
      from Some False have "cleanup_loop dir now (n # rest) fls c = cleanup_loop dir now rest fls c"
        by (simp add: os_path_isfile_def os_path_getmtime_def stale_at_def)
      with Cons.IH [OF Cons.prems, of c] same show ?thesis by simp
    next
      case True
      let ?fls' = "filter (\<lambda>p. fst p \<noteq> n) fls"
      have d: "distinct (map fst ?fls')"
        using Cons.prems by (rule distinct_map_filter)
      have same: "filter (?P (n # rest)) fls = filter (?P rest) ?fls'"
        using True entry_of_name [OF Cons.prems Some]
        by (simp only: filter_filter) (intro filter_cong refl, auto)
      from Some True have step: "cleanup_loop dir now (n # rest) fls c
                            = cleanup_loop dir now rest ?fls' (c + 1)"
        by (simp add: os_path_isfile_def os_path_getmtime_def os_remove_def stale_at_def)
      from Cons.IH [OF d, of "c + 1"] length_after_remove [OF Cons.prems Some] step same
      show ?thesis by auto
    qed
  qed
qed

text \<open>
  Claim C8. On a directory whose names are distinct, the sweep deletes exactly the
  regular files last modified more than 3600 seconds before the time read at its start,
  leaves every other entry as it was and in place, and answers with the number of files
  deleted. Times are real numbers here: the rounding of the floating-point subtraction
  is not modelled.
\<close>

theorem C8_sweep_cleanup:
  assumes "distinct (map fst (files s))"
  shows "cleanup_old_files cfg w s =
           (Json 200 [(''success'', JBool True),
                      (''cleaned_files'', JInt (int (length (filter (stale w) (files s)))))],
            s\<lparr>files := filter (\<lambda>p. \<not> stale w p) (files s)\<rparr>)"
proof -
  let ?fls = "files s"
  let ?keep = "filter (\<lambda>p. \<not> (fst p \<in> set (os_listdir ?fls) \<and> stale_at (time_time w) (snd p))) ?fls"
  obtain k where r: "cleanup_loop (DOWNLOADS_DIR cfg) (time_time w) (os_listdir ?fls) ?fls 0 = (Inr k, ?keep)"
    and n: "k + length ?keep = 0 + length ?fls"
    using cleanup_loop_result [OF assms] by blast
  have keep: "?keep = filter (\<lambda>p. \<not> stale w p) ?fls"
    by (intro filter_cong refl) (auto simp: stale_def os_listdir_def)
  have "length (filter (stale w) ?fls) + length (filter (\<lambda>p. \<not> stale w p) ?fls) = length ?fls"
    by (rule sum_length_filter_compl)
  with n keep have "k = length (filter (stale w) ?fls)" by simp
  with r keep show ?thesis by (simp add: cleanup_old_files_def)
qed

theorem C8_sweep_cleanup_witness:
  "cleanup_old_files default_config (scenario_env True TimedOut [])
     \<lparr>files = sweep_dir, launched = [], timers = [], logs = []\<rparr>
   = (Json 200 [(''success'', JBool True), (''cleaned_files'', JInt 1)],
      \<lparr>files = [(''new.mp3'', regular_file 1000 (1704110400 - 300))],
       launched = [], timers = [], logs = []\<rparr>)"
proof -
  have d: "distinct (map fst (files \<lparr>files = sweep_dir, launched = [], timers = [], logs = []\<rparr>))"
    by (simp add: sweep_dir_def)
  from C8_sweep_cleanup [OF d, of default_config "scenario_env True TimedOut []"]
  show ?thesis
    by (simp add: sweep_dir_def stale_def stale_at_def regular_file_def scenario_env_def)
qed

section \<open>Deferred deletion\<close>

lemma check_downloaded_timers:
  "timers (snd (check_downloaded cfg s ts job fmt)) = timers s"
  by (simp add: check_downloaded_def split: list.splits sum.splits)

lemma check_downloaded_success:
  "check_downloaded cfg s ts job fmt = (Inr res, s') \<Longrightarrow> success res"
  by (auto simp: check_downloaded_def split: list.splits sum.splits if_splits)

lemma run_command_timers:
  "timers (snd (run_command cfg w s cmd ts job fmt)) = timers s"
proof (cases "subprocess_run w cmd (files s)")
  case (Pair r fls')
  then show ?thesis
    by (cases r) (simp_all add: run_command_def Let_def check_downloaded_timers)
qed

lemma run_command_success:
  assumes "run_command cfg w s cmd ts job fmt = (Inr res, s')"
  shows "success res"
proof (cases "subprocess_run w cmd (files s)")
  case (Pair r fls')
  with assms show ?thesis
    by (cases r) (auto simp: run_command_def Let_def split: if_splits dest: check_downloaded_success)
qed

lemma try_body_timers:
  "timers (snd (try_body cfg w s url fmt quality)) = timers s"
  by (simp add: try_body_def Let_def run_command_timers split: sum.splits pyval.splits)

lemma try_body_success:
  "try_body cfg w s url fmt quality = (Inr res, s') \<Longrightarrow> success res"
  by (auto simp: try_body_def Let_def split: sum.splits pyval.splits if_splits
      dest: run_command_success)

lemma pipeline_timers:
  "timers (snd (download_soundcloud_to_mp3 cfg w s url fmt quality)) = timers s"
proof (cases "try_body cfg w s url fmt quality")
  case (Pair r s')
  with try_body_timers [of cfg w s url fmt quality] have "timers s' = timers s" by simp
  with Pair show ?thesis
    by (simp add: download_soundcloud_to_mp3_def Let_def split: sum.splits raised.splits)
qed

lemma pipeline_success_flag:
  assumes "download_soundcloud_to_mp3 cfg w s url fmt quality = (Inr res, s')"
  shows "success res"
proof (cases "try_body cfg w s url fmt quality")
  case (Pair r s'')
  with assms have "r = Inr res"
    by (auto simp: download_soundcloud_to_mp3_def Let_def split: sum.splits raised.splits if_splits)
  with Pair show ?thesis by (auto dest: try_body_success)
qed

lemma deliver_timers:
  "success res \<Longrightarrow> timers (snd (deliver cfg s fmt res)) = timers s @ [(60, filename res)]"
  by (simp add: deliver_def Let_def split: sum.splits)

lemma download_route_appends:
  "\<exists>new. timers (snd (download_route cfg w s req)) = timers s @ new"
proof (cases "req_method req")
  case GET
  then show ?thesis by (simp add: download_route_def)
next
  case POST
  show ?thesis
  proof (cases "prepare_download (req_data req)")
    case (Raises e)
    with POST show ?thesis by (simp add: download_route_def)
  next
    case (Responds r)
    with POST show ?thesis by (simp add: download_route_def)
  next
    case (Proceeds url fmt q)
    obtain r s' where p: "download_soundcloud_to_mp3 cfg w s url fmt q = (r, s')"
      by (cases "download_soundcloud_to_mp3 cfg w s url fmt q")
    with pipeline_timers [of cfg w s url fmt q] have t: "timers s' = timers s" by simp
    show ?thesis
    proof (cases r)
      case (Inl e)
      with POST Proceeds p t show ?thesis by (simp add: download_route_def)
    next
      case (Inr res)
      with p have "success res" by (auto dest: pipeline_success_flag)
      with POST Proceeds p t Inr show ?thesis
        by (simp add: download_route_def deliver_timers)
    qed
  qed
qed

lemma cleanup_timers: "timers (snd (cleanup_old_files cfg w s)) = timers s"
  by (simp add: cleanup_old_files_def split: prod.splits sum.splits)

lemma remove_file_failure:
  assumes "map_of (files s) name = Some e" and "\<not> is_file e"
  shows "remove_file cfg s name =
           s\<lparr>logs := logs s @
              [(''ERROR'', ''Error cleaning up file ''
                  @ os_path_basename (os_path_join (DOWNLOADS_DIR cfg) name)
                  @ '': [Errno 21] Is a directory: '' @ py_repr (os_path_join (DOWNLOADS_DIR cfg) name))]\<rparr>"
  using assms by (simp add: remove_file_def os_path_exists_def os_remove_def Let_def)

lemma remove_file_regular:
  assumes "map_of (files s) name = Some e" and "is_file e"
  shows "remove_file cfg s name =
           s\<lparr>files := filter (\<lambda>p. fst p \<noteq> name) (files s),
             logs := logs s @
              [(''INFO'', ''Cleaned up file: '' @ os_path_basename (os_path_join (DOWNLOADS_DIR cfg) name))]\<rparr>"
  using assms by (simp add: remove_file_def os_path_exists_def os_remove_def Let_def)

lemma remove_file_absent:
  assumes "map_of (files s) name = None"
  shows "remove_file cfg s name = s"
  using assms by (simp add: remove_file_def os_path_exists_def Let_def)


lemma fire_timer_runs:
  "timers s = (d, name) # rest \<Longrightarrow> fire_timer cfg s = remove_file cfg (s\<lparr>timers := rest\<rparr>) name"
  by (simp add: fire_timer_def)

lemma remove_file_swallows:
  assumes "os_path_exists (files s) name"
    and "os_remove (DOWNLOADS_DIR cfg) (files s) name = Inl e"
  shows "remove_file cfg s name =
           s\<lparr>logs := logs s @
              [(''ERROR'', ''Error cleaning up file ''
                  @ os_path_basename (os_path_join (DOWNLOADS_DIR cfg) name) @ '': '' @ str_exn e)]\<rparr>"
  using assms by (simp add: remove_file_def Let_def)

lemma deliver_files: "files (snd (deliver cfg s fmt res)) = files s"
  by (simp add: deliver_def Let_def split: sum.splits)

lemma deliver_launched: "launched (snd (deliver cfg s fmt res)) = launched s"
  by (simp add: deliver_def Let_def split: sum.splits)

lemma deliver_logs: "logs (snd (deliver cfg s fmt res)) = logs s"
  by (simp add: deliver_def Let_def split: sum.splits)

lemma remove_file_deletes:
  assumes "map_of (files s) name = Some en" and "is_file en"
  shows "remove_file cfg s name =
           s\<lparr>files := filter (\<lambda>p. fst p \<noteq> name) (files s),
             logs := logs s @
              [(''INFO'', ''Cleaned up file: '' @ os_path_basename (os_path_join (DOWNLOADS_DIR cfg) name))]\<rparr>"
    and "\<not> os_path_exists (files (remove_file cfg s name)) name"
    and "timers (remove_file cfg s name) = timers s"
  using assms by (simp_all add: remove_file_regular [OF assms] removed_gone)

lemma produced_file_listed:
  assumes "check_downloaded cfg s ts job fmt = (Inr res, s')"
  shows "\<exists>en. map_of (files s') (filename res) = Some en \<and> size en = file_size res"
  using assms
  by (auto simp: check_downloaded_def os_path_getsize_def
      split: list.splits sum.splits option.splits if_splits)


lemma run_command_listed:
  assumes "run_command cfg w s cmd ts job fmt = (Inr res, s')"
  shows "\<exists>en. map_of (files s') (filename res) = Some en \<and> size en = file_size res"
proof (cases "subprocess_run w cmd (files s)")
  case (Pair r fls')
  with assms show ?thesis
    by (cases r) (auto simp: run_command_def Let_def split: if_splits dest: produced_file_listed)
qed

lemma try_body_listed:
  "try_body cfg w s url fmt quality = (Inr res, s') \<Longrightarrow>
   \<exists>en. map_of (files s') (filename res) = Some en \<and> size en = file_size res"
  by (auto simp: try_body_def Let_def split: sum.splits pyval.splits if_splits
      dest: run_command_listed)

lemma pipeline_file_listed:
  assumes "download_soundcloud_to_mp3 cfg w s url fmt quality = (Inr res, s')"
  shows "\<exists>en. map_of (files s') (filename res) = Some en \<and> size en = file_size res"
proof (cases "try_body cfg w s url fmt quality")
  case (Pair r s'')
  with assms have "r = Inr res" and "s'' = s'"
    by (auto simp: download_soundcloud_to_mp3_def Let_def split: sum.splits raised.splits if_splits)
  with Pair show ?thesis by (auto dest: try_body_listed)
qed

lemma fire_timer_deletes:
  assumes "timers s = (d, name) # rest" and "map_of (files s) name = Some en" and "is_file en"
  shows "fire_timer cfg s =
           s\<lparr>files := filter (\<lambda>p. fst p \<noteq> name) (files s), timers := rest,
             logs := logs s @
              [(''INFO'', ''Cleaned up file: '' @ os_path_basename (os_path_join (DOWNLOADS_DIR cfg) name))]\<rparr>"
proof -
  have "map_of (files (s\<lparr>timers := rest\<rparr>)) name = Some en" using assms(2) by simp
  from remove_file_regular [OF this assms(3), of cfg] fire_timer_runs [OF assms(1), of cfg]
  show ?thesis by simp
qed

lemma fire_timer_fails:
  assumes "timers s = (d, name) # rest" and "map_of (files s) name = Some en" and "\<not> is_file en"
  shows "fire_timer cfg s =
           s\<lparr>timers := rest,
             logs := logs s @
              [(''ERROR'', ''Error cleaning up file ''
                  @ os_path_basename (os_path_join (DOWNLOADS_DIR cfg) name)
                  @ '': [Errno 21] Is a directory: '' @ py_repr (os_path_join (DOWNLOADS_DIR cfg) name))]\<rparr>"
proof -
  have "map_of (files (s\<lparr>timers := rest\<rparr>)) name = Some en" using assms(2) by simp
  from remove_file_failure [OF this assms(3), of cfg] fire_timer_runs [OF assms(1), of cfg]
  show ?thesis by simp
qed

lemma fire_timer_absent:
  assumes "timers s = (d, name) # rest" and "map_of (files s) name = None"
  shows "fire_timer cfg s = s\<lparr>timers := rest\<rparr>"
proof -
  have "map_of (files (s\<lparr>timers := rest\<rparr>)) name = None" using assms(2) by simp
  from remove_file_absent [OF this, of cfg] fire_timer_runs [OF assms(1), of cfg]
  show ?thesis by simp
qed

text \<open>
  Claim C9. The timer thread is modelled by the list of started timers and by
  \<open>fire_timer\<close>, the expiry of the oldest one. A request whose download succeeds starts
  exactly one timer, with delay 60, for the file produced, which is in the directory at
  that moment; the timer is started before \<open>send_file\<close> is called and whatever
  \<open>send_file\<close> then does. No handler removes a started timer: \<open>download_route\<close> only
  appends to the list and \<open>cleanup_old_files\<close> leaves it alone, so a timer leaves the list
  only by expiring. At expiry \<open>remove_file\<close> runs and the timer is gone. If the file is
  still there as a regular file it is deleted (and the deletion logged): it no longer
  exists afterwards, and when the timer of the request is the only one, firing it on the
  state the handler left removes exactly the produced file. If \<open>os.remove\<close> raises, one
  error is recorded in the log, nothing else changes and \<open>remove_file\<close> returns normally.
  If the file is already gone, nothing happens.
\<close>

theorem C9_deferred_deletion:
  assumes "req_method req = POST"
    and "prepare_download (req_data req) = Proceeds url fmt q"
    and "download_soundcloud_to_mp3 cfg w s url fmt q = (Inr res, s1)"
  shows "timers (snd (download_route cfg w s req)) = timers s @ [(60, filename res)]
       \<and> files (snd (download_route cfg w s req)) = files s1
       \<and> os_path_exists (files (snd (download_route cfg w s req))) (filename res)
       \<and> (\<exists>new. timers (snd (download_route cfg w2 s2 req2)) = timers s2 @ new)
       \<and> timers (snd (cleanup_old_files cfg w2 s2)) = timers s2
       \<and> (timers s2 = (d, name) # rest \<longrightarrow>
            fire_timer cfg s2 = remove_file cfg (s2\<lparr>timers := rest\<rparr>) name)
       \<and> (os_path_exists (files s2) name \<and> os_remove (DOWNLOADS_DIR cfg) (files s2) name = Inl e \<longrightarrow>
            remove_file cfg s2 name =
              s2\<lparr>logs := logs s2 @
                 [(''ERROR'', ''Error cleaning up file ''
                    @ os_path_basename (os_path_join (DOWNLOADS_DIR cfg) name) @ '': '' @ str_exn e)]\<rparr>)
       \<and> (timers s2 = (d, name) # rest \<and> map_of (files s2) name = Some en \<and> is_file en \<longrightarrow>
            fire_timer cfg s2 =
              s2\<lparr>files := filter (\<lambda>p. fst p \<noteq> name) (files s2), timers := rest,
                 logs := logs s2 @
                   [(''INFO'', ''Cleaned up file: ''
                      @ os_path_basename (os_path_join (DOWNLOADS_DIR cfg) name))]\<rparr>
            \<and> \<not> os_path_exists (files (fire_timer cfg s2)) name)
       \<and> (timers s2 = (d, name) # rest \<and> map_of (files s2) name = Some en \<and> \<not> is_file en \<longrightarrow>
            fire_timer cfg s2 =
              s2\<lparr>timers := rest,
                 logs := logs s2 @
                   [(''ERROR'', ''Error cleaning up file ''
                      @ os_path_basename (os_path_join (DOWNLOADS_DIR cfg) name)
                      @ '': [Errno 21] Is a directory: ''
                      @ py_repr (os_path_join (DOWNLOADS_DIR cfg) name))]\<rparr>)
       \<and> (timers s2 = (d, name) # rest \<and> map_of (files s2) name = None \<longrightarrow>
            fire_timer cfg s2 = s2\<lparr>timers := rest\<rparr>)
       \<and> (timers s = [] \<and> os_path_isfile (files s1) (filename res) \<longrightarrow>
            files (fire_timer cfg (snd (download_route cfg w s req)))
              = filter (\<lambda>p. fst p \<noteq> filename res) (files s1)
            \<and> \<not> os_path_exists (files (fire_timer cfg (snd (download_route cfg w s req)))) (filename res)
            \<and> timers (fire_timer cfg (snd (download_route cfg w s req))) = [])"
proof -
  let ?s' = "snd (download_route cfg w s req)"
  from pipeline_timers [of cfg w s url fmt q] assms(3) have t: "timers s1 = timers s" by simp
  from assms(3) have "success res" by (rule pipeline_success_flag)
  then have "timers (snd (deliver cfg s1 fmt res)) = timers s1 @ [(60, filename res)]"
    by (rule deliver_timers)
  with t have c1: "timers ?s' = timers s @ [(60, filename res)]"
    by (simp add: route_pipeline_success [OF assms])
  have c2: "files ?s' = files s1"
    by (simp add: route_pipeline_success [OF assms] deliver_files)
  from pipeline_file_listed [OF assms(3)] obtain en0 where
    l: "map_of (files s1) (filename res) = Some en0" by blast
  with c2 have c3: "os_path_exists (files ?s') (filename res)"
    by (simp add: os_path_exists_def)
  have c8: "fire_timer cfg s2 =
              s2\<lparr>files := filter (\<lambda>p. fst p \<noteq> name) (files s2), timers := rest,
                 logs := logs s2 @
                   [(''INFO'', ''Cleaned up file: ''
                      @ os_path_basename (os_path_join (DOWNLOADS_DIR cfg) name))]\<rparr>
            \<and> \<not> os_path_exists (files (fire_timer cfg s2)) name"
    if "timers s2 = (d, name) # rest" "map_of (files s2) name = Some en" "is_file en"
    using fire_timer_deletes [OF that, of cfg] by (simp add: removed_gone)
  have c11: "files (fire_timer cfg ?s') = filter (\<lambda>p. fst p \<noteq> filename res) (files s1)
            \<and> \<not> os_path_exists (files (fire_timer cfg ?s')) (filename res)
            \<and> timers (fire_timer cfg ?s') = []"
    if "timers s = []" "os_path_isfile (files s1) (filename res)"
  proof -
    from that(1) c1 have tm: "timers ?s' = (60, filename res) # []" by simp
    from that(2) l have f: "is_file en0" by (simp add: os_path_isfile_def)
    from l c2 have m: "map_of (files ?s') (filename res) = Some en0" by simp
    from fire_timer_deletes [OF tm m f, of cfg] c2 show ?thesis
      by (simp add: removed_gone)
  qed
  show ?thesis
    using c1 c2 c3 download_route_appends [of cfg w2 s2 req2] cleanup_timers [of cfg w2 s2]
      fire_timer_runs [of s2 d name rest cfg] remove_file_swallows [of s2 name cfg e]
      c8 fire_timer_fails [of s2 d name rest en cfg] fire_timer_absent [of s2 d name rest cfg] c11
    by blast
qed

lemma folder_found:
  "find_downloaded folder_dir ''20240101_120000'' ''ab12cd34'' ''mp3'' = [''20240101_120000_ab12cd34_Song.mp3'']"
  by (simp add: find_downloaded_def os_listdir_def folder_dir_def startswith_def endswith_def mp3_lower)

lemma folder_success:
  "download_soundcloud_to_mp3 default_config (scenario_env True (Exit 0 [] []) folder_dir) empty_state
     ''https://soundcloud.com/a/b'' ''mp3'' (Str ''192'')
   = (Inr \<lparr>success = True, filename = ''20240101_120000_ab12cd34_Song.mp3'', file_size = 4096,
            message = ''Download completed successfully''\<rparr>,
      \<lparr>files = folder_dir, launched = [[''yt-dlp'', ''--extract-audio'', ''--audio-format'', ''mp3'',
          ''--output'', ''./downloads/20240101_120000_ab12cd34_%(title)s.%(ext)s'',
          ''--no-playlist'', ''--max-filesize'', ''104857600'',
          ''https://soundcloud.com/a/b'', ''--audio-quality'', ''192'']], timers = [], logs = []\<rparr>)"
proof -
  have f: "find_downloaded folder_dir (now_strftime (scenario_env True (Exit 0 [] []) folder_dir))
             (take 8 (uuid4_str (scenario_env True (Exit 0 [] []) folder_dir))) ''mp3''
           = ''20240101_120000_ab12cd34_Song.mp3'' # []"
    by (simp add: scenario_stamp folder_found)
  have m: "map_of folder_dir ''20240101_120000_ab12cd34_Song.mp3'' = Some (directory 1704110400)"
    by (simp add: folder_dir_def)
  have g: "\<not> int (size (directory 1704110400)) > MAX_FILE_SIZE default_config"
    by (simp add: directory_def default_config_def)
  from pipeline_success [OF scenario_valid scenario_deps _ scenario_run f m g,
      where quality = "Str ''192''" and q = "''192''" and s = empty_state]
  show ?thesis by (simp add: scenario_command empty_state_def directory_def)
qed

lemma song_path: "os_path_join ''./downloads'' ''20240101_120000_ab12cd34_Song.mp3''
                    = ''./downloads/20240101_120000_ab12cd34_Song.mp3''"
  by code_simp

lemma song_basename: "os_path_basename ''./downloads/20240101_120000_ab12cd34_Song.mp3''
                    = ''20240101_120000_ab12cd34_Song.mp3''"
  by code_simp

lemma song_repr: "py_repr ''./downloads/20240101_120000_ab12cd34_Song.mp3''
                    = CHR 0x27 # ''./downloads/20240101_120000_ab12cd34_Song.mp3'' @ [CHR 0x27]"
  by code_simp

lemma folder_route:
  "download_route default_config (scenario_env True (Exit 0 [] []) folder_dir) empty_state
     (post_form [(''url'', ''https://soundcloud.com/a/b'')])
   = (Json 500 [(''error'', JString ''An unexpected error occurred'')],
      \<lparr>files = folder_dir, launched = [[''yt-dlp'', ''--extract-audio'', ''--audio-format'', ''mp3'',
          ''--output'', ''./downloads/20240101_120000_ab12cd34_%(title)s.%(ext)s'',
          ''--no-playlist'', ''--max-filesize'', ''104857600'',
          ''https://soundcloud.com/a/b'', ''--audio-quality'', ''192'']],
       timers = [(60, ''20240101_120000_ab12cd34_Song.mp3'')], logs = []\<rparr>)"
  by (simp only: route_pipeline_success [OF post_form_method form_default_prepared folder_success])
     (simp add: deliver_def send_file_def folder_dir_def directory_def route_except_def)

theorem C9_deferred_deletion_witness:
  "download_route default_config (scenario_env True (Exit 0 [] []) produced_dir) empty_state
     (post_form [(''url'', ''https://soundcloud.com/a/b'')])
   = (SendFile ''./downloads/20240101_120000_ab12cd34_Song.mp3'' ''20240101_120000_ab12cd34_Song.mp3''
        ''audio/mp3'',
      \<lparr>files = produced_dir, launched = [[''yt-dlp'', ''--extract-audio'', ''--audio-format'', ''mp3'',
          ''--output'', ''./downloads/20240101_120000_ab12cd34_%(title)s.%(ext)s'',
          ''--no-playlist'', ''--max-filesize'', ''104857600'',
          ''https://soundcloud.com/a/b'', ''--audio-quality'', ''192'']],
       timers = [(60, ''20240101_120000_ab12cd34_Song.mp3'')], logs = []\<rparr>)
   \<and> fire_timer default_config
        \<lparr>files = produced_dir, launched = [[''yt-dlp'', ''--extract-audio'', ''--audio-format'', ''mp3'',
          ''--output'', ''./downloads/20240101_120000_ab12cd34_%(title)s.%(ext)s'',
          ''--no-playlist'', ''--max-filesize'', ''104857600'',
          ''https://soundcloud.com/a/b'', ''--audio-quality'', ''192'']],
         timers = [(60, ''20240101_120000_ab12cd34_Song.mp3'')], logs = []\<rparr>
     = \<lparr>files = [], launched = [[''yt-dlp'', ''--extract-audio'', ''--audio-format'', ''mp3'',
          ''--output'', ''./downloads/20240101_120000_ab12cd34_%(title)s.%(ext)s'',
          ''--no-playlist'', ''--max-filesize'', ''104857600'',
          ''https://soundcloud.com/a/b'', ''--audio-quality'', ''192'']], timers = [],
        logs = [(''INFO'', ''Cleaned up file: 20240101_120000_ab12cd34_Song.mp3'')]\<rparr>
   \<and> \<not> os_path_exists
         (files (fire_timer default_config
            (snd (download_route default_config (scenario_env True (Exit 0 [] []) produced_dir)
               empty_state (post_form [(''url'', ''https://soundcloud.com/a/b'')])))))
         ''20240101_120000_ab12cd34_Song.mp3''
   \<and> download_route default_config (scenario_env True (Exit 0 [] []) folder_dir) empty_state
     (post_form [(''url'', ''https://soundcloud.com/a/b'')])
   = (Json 500 [(''error'', JString ''An unexpected error occurred'')],
      \<lparr>files = folder_dir, launched = [[''yt-dlp'', ''--extract-audio'', ''--audio-format'', ''mp3'',
          ''--output'', ''./downloads/20240101_120000_ab12cd34_%(title)s.%(ext)s'',
          ''--no-playlist'', ''--max-filesize'', ''104857600'',
          ''https://soundcloud.com/a/b'', ''--audio-quality'', ''192'']],
       timers = [(60, ''20240101_120000_ab12cd34_Song.mp3'')], logs = []\<rparr>)
   \<and> fire_timer default_config
        \<lparr>files = folder_dir, launched = [[''yt-dlp'', ''--extract-audio'', ''--audio-format'', ''mp3'',
          ''--output'', ''./downloads/20240101_120000_ab12cd34_%(title)s.%(ext)s'',
          ''--no-playlist'', ''--max-filesize'', ''104857600'',
          ''https://soundcloud.com/a/b'', ''--audio-quality'', ''192'']],
         timers = [(60, ''20240101_120000_ab12cd34_Song.mp3'')], logs = []\<rparr>
     = \<lparr>files = folder_dir, launched = [[''yt-dlp'', ''--extract-audio'', ''--audio-format'', ''mp3'',
          ''--output'', ''./downloads/20240101_120000_ab12cd34_%(title)s.%(ext)s'',
          ''--no-playlist'', ''--max-filesize'', ''104857600'',
          ''https://soundcloud.com/a/b'', ''--audio-quality'', ''192'']], timers = [],
        logs = [(''ERROR'', ''Error cleaning up file 20240101_120000_ab12cd34_Song.mp3: ''
                   @ ''[Errno 21] Is a directory: '' @ CHR 0x27
                   # ''./downloads/20240101_120000_ab12cd34_Song.mp3'' @ [CHR 0x27])]\<rparr>"
proof -
  let ?name = "''20240101_120000_ab12cd34_Song.mp3''"
  let ?req = "post_form [(''url'', ''https://soundcloud.com/a/b'')]"
  let ?sP = "\<lparr>files = produced_dir, launched = [[''yt-dlp'', ''--extract-audio'', ''--audio-format'', ''mp3'',
          ''--output'', ''./downloads/20240101_120000_ab12cd34_%(title)s.%(ext)s'',
          ''--no-playlist'', ''--max-filesize'', ''104857600'',
          ''https://soundcloud.com/a/b'', ''--audio-quality'', ''192'']], timers = [(60, ?name)], logs = []\<rparr>"
  let ?sF = "\<lparr>files = folder_dir, launched = [[''yt-dlp'', ''--extract-audio'', ''--audio-format'', ''mp3'',
          ''--output'', ''./downloads/20240101_120000_ab12cd34_%(title)s.%(ext)s'',
          ''--no-playlist'', ''--max-filesize'', ''104857600'',
          ''https://soundcloud.com/a/b'', ''--audio-quality'', ''192'']], timers = [(60, ?name)], logs = []\<rparr>"
  note ok = C9_deferred_deletion [OF post_form_method form_default_prepared scenario_success]
  note ko = C9_deferred_deletion [OF post_form_method form_default_prepared folder_success]
  have routeP: "download_route default_config (scenario_env True (Exit 0 [] []) produced_dir)
                  empty_state ?req
     = (SendFile ''./downloads/20240101_120000_ab12cd34_Song.mp3'' ?name ''audio/mp3'', ?sP)"
    by (rule scenario_delivered [OF form_default_prepared])
  have tmP: "timers ?sP = (60, ?name) # []" by simp
  have mP: "map_of (files ?sP) ?name = Some (regular_file 50000 1704110400)"
    by (simp add: produced_dir_def)
  have iP: "is_file (regular_file 50000 1704110400)" by (simp add: regular_file_def)
  from ok [where ?s2.0 = ?sP and d = 60 and name = ?name and rest = "[]"
              and en = "regular_file 50000 1704110400"] tmP mP iP
  have "fire_timer default_config ?sP =
          ?sP\<lparr>files := filter (\<lambda>p. fst p \<noteq> ?name) (files ?sP), timers := [],
                logs := logs ?sP @
                  [(''INFO'', ''Cleaned up file: ''
                      @ os_path_basename (os_path_join (DOWNLOADS_DIR default_config) ?name))]\<rparr>"
    by blast
  then have fireP: "fire_timer default_config ?sP
     = \<lparr>files = [], launched = [[''yt-dlp'', ''--extract-audio'', ''--audio-format'', ''mp3'',
          ''--output'', ''./downloads/20240101_120000_ab12cd34_%(title)s.%(ext)s'',
          ''--no-playlist'', ''--max-filesize'', ''104857600'',
          ''https://soundcloud.com/a/b'', ''--audio-quality'', ''192'']], timers = [],
        logs = [(''INFO'', ''Cleaned up file: 20240101_120000_ab12cd34_Song.mp3'')]\<rparr>"
    by (simp add: produced_dir_def default_config_def song_path song_basename)
  have goneP: "\<not> os_path_exists
         (files (fire_timer default_config
            (snd (download_route default_config (scenario_env True (Exit 0 [] []) produced_dir)
               empty_state ?req)))) ?name"
    by (simp add: routeP fireP os_path_exists_def)
  have tmF: "timers ?sF = (60, ?name) # []" by simp
  have mF: "map_of (files ?sF) ?name = Some (directory 1704110400)"
    by (simp add: folder_dir_def)
  have iF: "\<not> is_file (directory 1704110400)" by (simp add: directory_def)
  from ko [where ?s2.0 = ?sF and d = 60 and name = ?name and rest = "[]"
              and en = "directory 1704110400"] tmF mF iF
  have "fire_timer default_config ?sF =
          ?sF\<lparr>timers := [],
                logs := logs ?sF @
                   [(''ERROR'', ''Error cleaning up file ''
                      @ os_path_basename (os_path_join (DOWNLOADS_DIR default_config) ?name)
                      @ '': [Errno 21] Is a directory: ''
                      @ py_repr (os_path_join (DOWNLOADS_DIR default_config) ?name))]\<rparr>"
    by blast
  then have fireF: "fire_timer default_config ?sF
     = \<lparr>files = folder_dir, launched = [[''yt-dlp'', ''--extract-audio'', ''--audio-format'', ''mp3'',
          ''--output'', ''./downloads/20240101_120000_ab12cd34_%(title)s.%(ext)s'',
          ''--no-playlist'', ''--max-filesize'', ''104857600'',
          ''https://soundcloud.com/a/b'', ''--audio-quality'', ''192'']], timers = [],
        logs = [(''ERROR'', ''Error cleaning up file 20240101_120000_ab12cd34_Song.mp3: ''
                   @ ''[Errno 21] Is a directory: '' @ CHR 0x27
                   # ''./downloads/20240101_120000_ab12cd34_Song.mp3'' @ [CHR 0x27])]\<rparr>"
    by (simp add: default_config_def song_path song_basename song_repr)
  from routeP fireP goneP folder_route fireF show ?thesis by blast
qed

section \<open>The classification of a failure without stderr text\<close>

lemma nonzero_exit_empty_stderr:
  assumes "validate_soundcloud_url w url = Inr (True, msg)"
    and "check_dependencies w = []"
    and "py_lower fmt = ''mp3'' \<longrightarrow> quality = Str q"
    and "subprocess_run w (download_command cfg w url fmt q) (files s) = (Exit rc out [], fls')"
    and "rc \<noteq> 0"
  shows "download_soundcloud_to_mp3 cfg w s url fmt quality =
           (Inl (DownloadError
              (let error_msg = called_process_error_str w (download_command cfg w url fmt q) rc
               in if str_in ''Private video'' error_msg \<or> str_in ''not available'' error_msg
                  then ''Track is private or not available''
                  else if str_in ''Unsupported URL'' error_msg then ''Unsupported SoundCloud URL''
                  else ''Download failed: '' @ error_msg)),
            s\<lparr>files := fls', launched := launched s @ [download_command cfg w url fmt q]\<rparr>)"
  by (simp add: download_soundcloud_to_mp3_def try_body_runs [OF assms(1-3)]
      run_command_nonzero [OF assms(4,5)] Let_def)

lemma scenario_error_text:
  "called_process_error_str (scenario_env ff r out)
     [''yt-dlp'', ''--extract-audio'', ''--audio-format'', ''mp3'',
      ''--output'', ''./downloads/20240101_120000_ab12cd34_%(title)s.%(ext)s'',
      ''--no-playlist'', ''--max-filesize'', ''104857600'',
      ''https://soundcloud.com/a/b'', ''--audio-quality'', ''192''] 1
   = ''Command '' @ CHR 0x27 # ''['' @ CHR 0x27 # ''yt-dlp'' @ CHR 0x27 # '', ''
       @ CHR 0x27 # ''--extract-audio'' @ CHR 0x27 # '', ''
       @ CHR 0x27 # ''--audio-format'' @ CHR 0x27 # '', '' @ CHR 0x27 # ''mp3'' @ CHR 0x27 # '', ''
       @ CHR 0x27 # ''--output'' @ CHR 0x27 # '', ''
       @ CHR 0x27 # ''./downloads/20240101_120000_ab12cd34_%(title)s.%(ext)s'' @ CHR 0x27 # '', ''
       @ CHR 0x27 # ''--no-playlist'' @ CHR 0x27 # '', ''
       @ CHR 0x27 # ''--max-filesize'' @ CHR 0x27 # '', '' @ CHR 0x27 # ''104857600'' @ CHR 0x27 # '', ''
       @ CHR 0x27 # ''https://soundcloud.com/a/b'' @ CHR 0x27 # '', ''
       @ CHR 0x27 # ''--audio-quality'' @ CHR 0x27 # '', '' @ CHR 0x27 # ''192'' @ CHR 0x27 # '']''
       @ CHR 0x27 # '' returned non-zero exit status 1.''"
  by code_simp

end
